theory Spec2Isabelle
  imports Complex_Main "HOL-Library.Sublist" "HOL-Library.Char_ord" "HOL-Library.Multiset"
begin

section \<open>Python strings and numbers\<close>

text \<open>
  A string is kept as the list of the bytes of its UTF-8 encoding.  Concatenation,
  \<open>startswith\<close>, \<open>in\<close>, \<open>split('\n')\<close> and \<open>join\<close> act on the encoding as they act
  on the characters, and are the list operations below.

  \<open>str.lower\<close> and \<open>str.strip\<close> do not: they follow the Unicode character database of
  the Python interpreter (an accented capital has a lower case, the no-break space is
  stripped), which is no part of this repository.  They are the two fields of \<open>python\<close>,
  and every function whose source calls one of them takes the interpreter \<open>py\<close> as its
  first argument.
\<close>

record python =
  lower :: "string \<Rightarrow> string"
  strip :: "string \<Rightarrow> string"

definition nl :: string where
  "nl = [CHR 0x0A]"

definition quote :: string where
  "quote = [CHR 0x27]"

definition startswith :: "string \<Rightarrow> string \<Rightarrow> bool" where
  "startswith s p = prefix p s"

text \<open>\<open>contains sub s\<close> is Python's \<open>sub in s\<close> on strings.\<close>

fun contains :: "string \<Rightarrow> string \<Rightarrow> bool" where
  "contains sub [] = (sub = [])"
| "contains sub (c # cs) = (prefix sub (c # cs) \<or> contains sub cs)"

text \<open>\<open>split_nl s\<close> is \<open>s.split('\n')\<close>; \<open>join sep xs\<close> is \<open>sep.join(xs)\<close>.\<close>

fun split_nl :: "string \<Rightarrow> string list" where
  "split_nl [] = [[]]"
| "split_nl (c # cs) =
     (if c = CHR 0x0A then [] # split_nl cs
      else (case split_nl cs of
              [] \<Rightarrow> [[c]]
            | l # ls \<Rightarrow> (c # l) # ls))"

fun join :: "string \<Rightarrow> string list \<Rightarrow> string" where
  "join sep [] = []"
| "join sep [x] = x"
| "join sep (x # y # ys) = x @ sep @ join sep (y # ys)"

definition digit :: "nat \<Rightarrow> char" where
  "digit n = ''0123456789'' ! (n mod 10)"

fun str_nat :: "nat \<Rightarrow> string" where
  "str_nat n = (if n < 10 then [digit n] else str_nat (n div 10) @ [digit (n mod 10)])"

declare str_nat.simps [simp del]

text \<open>\<open>str(i)\<close> for a Python int, and the format \<open>{i:+d}\<close>.\<close>

definition str_int :: "int \<Rightarrow> string" where
  "str_int i = (if i < 0 then CHR ''-'' # str_nat (nat (- i)) else str_nat (nat i))"

definition str_int_signed :: "int \<Rightarrow> string" where
  "str_int_signed i = (if i < 0 then CHR ''-'' # str_nat (nat (- i)) else CHR ''+'' # str_nat (nat i))"

text \<open>
  A number of the payload is the rational that Python holds for it: an \<open>int\<close>, or a
  \<open>float\<close>, which is a double.  \<open>py_int x\<close> is \<open>int(x)\<close>, which truncates toward zero.
\<close>

definition py_int :: "rat \<Rightarrow> int" where
  "py_int x = (if x < 0 then \<lceil>x\<rceil> else \<lfloor>x\<rfloor>)"

text \<open>
  Python's \<open>x / y\<close> is the true division: the exact quotient rounded to the nearest double,
  for two \<open>int\<close>s as for a \<open>float\<close> and an \<open>int\<close>.  A double has a significand of 53
  bits, so a number in the binade \<open>2^e \<le> \<bar>q\<bar> < 2^(e+1)\<close> is rounded to a multiple of
  \<open>2^(e-52)\<close>, a tie going to the even multiple; below \<open>2^-1022\<close> the step stays
  \<open>2^-1074\<close>.  \<open>bit_length n\<close> is \<open>n.bit_length()\<close>, the number of binary digits of
  \<open>n\<close>, from which \<open>binade\<close> reads the exponent \<open>e\<close> of a positive rational.

  The doubles of the model have no largest exponent.  Where the rounded quotient reaches
  \<open>2^1024\<close> Python raises OverflowError instead, and it reads the JSON numbers beyond that
  range as infinite: such a number is outside the model, as a body of another type is.
\<close>

fun bit_length :: "nat \<Rightarrow> nat" where
  "bit_length n = (if n = 0 then 0 else Suc (bit_length (n div 2)))"

declare bit_length.simps [simp del]

definition binade :: "rat \<Rightarrow> int" where
  "binade q =
     (if 1 \<le> q then int (bit_length (nat \<lfloor>q\<rfloor>)) - 1
      else (let r = 1 / q; f = int (bit_length (nat \<lfloor>r\<rfloor>)) - 1
            in if r = 2 powi f then - f else - f - 1))"

definition round_half_even :: "rat \<Rightarrow> int" where
  "round_half_even x =
     (let n = \<lfloor>x\<rfloor>; d = x - of_int n
      in if d < 1 / 2 then n
         else if 1 / 2 < d then n + 1
         else if even n then n else n + 1)"

definition round_double :: "rat \<Rightarrow> rat" where
  "round_double q =
     (if q = 0 then 0
      else (let ulp = 2 powi (max (binade \<bar>q\<bar>) (- 1022) - 52)
            in of_int (round_half_even (q / ulp)) * ulp))"

definition true_div :: "rat \<Rightarrow> rat \<Rightarrow> rat" where
  "true_div x y = round_double (x / y)"

text \<open>
  A size in bytes divided by \<open>1024 ** 3\<close> and shown with two decimals.  The quotient is a
  double, and both the format \<open>.2f\<close> and \<open>round(x, 2)\<close> round the value of that double
  to hundredths, ties to even: \<open>cents\<close> is the number of hundredths.  \<open>round\<close> returns
  the double nearest to them, and \<open>str\<close> writes its shortest decimal, which is the decimal
  of the hundredths as long as they have at most 15 digits: for a size below \<open>10^22\<close>
  bytes, as every 64-bit count of bytes is.
\<close>

definition cents :: "nat \<Rightarrow> nat" where
  "cents sz = nat (round_half_even (true_div (of_nat sz) (1024 ^ 3) * 100))"

text \<open>\<open>f"{size / (1024 ** 3):.2f}"\<close>\<close>

definition fmt_2f :: "nat \<Rightarrow> string" where
  "fmt_2f sz =
     (let c = cents sz
      in str_nat (c div 100) @ ''.'' @ [digit (c div 10 mod 10), digit (c mod 10)])"

text \<open>\<open>str(round(size / (1024 ** 3), 2))\<close>: the shortest decimal, with at least one digit
  after the point.\<close>

definition str_round2 :: "nat \<Rightarrow> string" where
  "str_round2 sz =
     (let c = cents sz
      in str_nat (c div 100) @ ''.'' @
         (if c mod 10 = 0 then [digit (c div 10 mod 10)]
          else [digit (c div 10 mod 10), digit (c mod 10)]))"

section \<open>Releases and the release formatter (\<open>prompts.py\<close>)\<close>

text \<open>
  A release is the JSON object of the webhook payload.  Each key the source reads is a field;
  \<open>None\<close> is an absent key, so the defaults of \<open>r.get(key, default)\<close> stay in the
  functions that read them.  A present key carries a value of the JSON type the media manager
  sends for it.  The field \<open>size_bytes\<close> is the key \<open>size\<close>.
\<close>

record release =
  guid :: "string option"
  title :: "string option"
  size_bytes :: "nat option"
  quality :: "string option"
  indexer :: "string option"
  seeders :: "int option"
  customFormatScore :: "int option"
  languages :: "string list option"
  customFormats :: "string list option"
  isSelected :: "bool option"
  ageMinutes :: "rat option"
  indexerFlags :: "string list option"

definition get_or :: "'a option \<Rightarrow> 'a \<Rightarrow> 'a" where
  "get_or v d = (case v of None \<Rightarrow> d | Some x \<Rightarrow> x)"

text \<open>The age bucket of \<open>format_releases_for_ai\<close> (the \<open>if\<close>/\<open>elif\<close>/\<open>else\<close> on
  \<open>age_minutes\<close>): \<open>int(age_minutes)\<close>, \<open>int(age_minutes / 60)\<close> and
  \<open>int(age_minutes / 1440)\<close>, the quotients being doubles.\<close>

definition age_str :: "rat \<Rightarrow> string" where
  "age_str age_minutes =
     (if age_minutes < 60 then str_int (py_int age_minutes) @ ''m''
      else if age_minutes < 1440 then str_int (py_int (true_div age_minutes 60)) @ ''h''
      else str_int (py_int (true_div age_minutes 1440)) @ ''d'')"

text \<open>The paragraph \<open>format_releases_for_ai\<close> appends for release \<open>r\<close> at index \<open>i\<close>.\<close>

definition format_release :: "nat \<Rightarrow> release \<Rightarrow> string" where
  "format_release i r =
     (let size_gb = fmt_2f (get_or (size_bytes r) 0);
          seeders_v = get_or (seeders r) 0;
          quality_v = get_or (quality r) ''Unknown'';
          indexer_v = get_or (indexer r) ''Unknown'';
          title_v = get_or (title r) ''Unknown'';
          score = get_or (customFormatScore r) 0;
          languages_v = get_or (languages r) [];
          custom_formats = get_or (customFormats r) [];
          is_selected = get_or (isSelected r) False;
          age_minutes = get_or (ageMinutes r) 0;
          indexer_flags = get_or (indexerFlags r) [];
          status = (if is_selected then ''RADARR PREFERRED'' else '''');
          flags_str = (if indexer_flags \<noteq> [] then '' Flags: ['' @ join '', '' indexer_flags @ '']''
                       else '''');
          status_line = (if status \<noteq> [] then ''   '' @ status @ nl else '''')
      in str_nat i @ ''. '' @ title_v @ nl @
         ''   Size: '' @ size_gb @ '' GB | Quality: '' @ quality_v @ '' | Indexer: '' @ indexer_v @ nl @
         ''   Seeders: '' @ str_int seeders_v @ '' | CF Score: '' @ str_int_signed score @
           '' | Age: '' @ age_str age_minutes @ nl @
         ''   Languages: '' @ (if languages_v \<noteq> [] then join '', '' languages_v else ''Unknown'') @ nl @
         ''   Custom Formats: '' @
           (if custom_formats \<noteq> [] then join '', '' custom_formats else ''None'') @
           flags_str @ nl @
         status_line)"

fun format_from :: "nat \<Rightarrow> release list \<Rightarrow> string list" where
  "format_from i [] = []"
| "format_from i (r # rs) = format_release i r # format_from (Suc i) rs"

definition format_releases_for_ai :: "release list \<Rightarrow> string \<Rightarrow> string" where
  "format_releases_for_ai releases movie_title =
     (if releases = [] then ''No releases available.''
      else join nl
        ((''Available releases for '' @ quote @ movie_title @ quote @ '' ('' @
            str_nat (length releases) @ '' total):'' @ nl)
         # format_from 1 releases))"

section \<open>Configuration and the prompt table (\<open>config.py\<close>)\<close>

record arr_config =
  url :: string
  api_key :: string

text \<open>
  The fields of \<open>Config\<close> that the webhook handlers and the prompt lookup read.
  \<open>service_prompts\<close> is the nested dictionary service \<open>\<rightarrow>\<close> profile \<open>\<rightarrow>\<close> system prompt.
\<close>

record config =
  radarr :: "arr_config option"
  sonarr :: "arr_config option"
  service_prompts :: "string \<rightharpoonup> (string \<rightharpoonup> string)"
  dry_run :: bool
  skip_tag :: string

text \<open>
  What \<open>load_config\<close> and \<open>reload_prompts\<close> see on disk: an entry of a service directory
  is a plain file, or a directory together with the text of its \<open>system.txt\<close> (\<open>None\<close>
  when the file does not exist).  A service directory is the list \<open>os.listdir\<close> returns,
  \<open>None\<close> when it is not a directory; the prompts directory itself may be missing.
\<close>

datatype dir_entry = Plain_file | Directory "string option"

type_synonym prompts_dir = "(string \<Rightarrow> (string \<times> dir_entry) list option) option"

definition load_system_prompt :: "python \<Rightarrow> string option \<Rightarrow> string option" where
  "load_system_prompt py system_txt =
     (case system_txt of
        None \<Rightarrow> None
      | Some text \<Rightarrow> (let system = strip py text in if system \<noteq> [] then Some system else None))"

text \<open>The loop \<open>for profile in os.listdir(service_dir)\<close>, filling the service's dictionary.\<close>

fun load_profiles ::
  "python \<Rightarrow> (string \<times> dir_entry) list \<Rightarrow> (string \<rightharpoonup> string) \<Rightarrow> (string \<rightharpoonup> string)" where
  "load_profiles py [] prompts = prompts"
| "load_profiles py ((profile, Plain_file) # rest) prompts = load_profiles py rest prompts"
| "load_profiles py ((profile, Directory system_txt) # rest) prompts =
     (case load_system_prompt py system_txt of
        None \<Rightarrow> load_profiles py rest prompts
      | Some system_prompt \<Rightarrow>
          load_profiles py rest (prompts(lower py profile \<mapsto> system_prompt)))"

definition load_service_prompts ::
  "python \<Rightarrow> prompts_dir \<Rightarrow> (string \<rightharpoonup> (string \<rightharpoonup> string))" where
  "load_service_prompts py dir =
     (let empty_table = [''radarr'' \<mapsto> Map.empty, ''sonarr'' \<mapsto> Map.empty]
      in case dir of
           None \<Rightarrow> empty_table
         | Some listdir \<Rightarrow>
             fold (\<lambda>service table.
                     case listdir service of
                       None \<Rightarrow> table
                     | Some entries \<Rightarrow>
                         table(service \<mapsto>
                           load_profiles py entries (get_or (table service) Map.empty)))
                  [''radarr'', ''sonarr''] empty_table)"

text \<open>\<open>get_system_prompt_for_profile\<close> of \<open>prompts.py\<close>.\<close>

definition get_system_prompt_for_profile ::
  "python \<Rightarrow> config \<Rightarrow> string \<Rightarrow> string \<Rightarrow> string option" where
  "get_system_prompt_for_profile py cfg service profile_name =
     (let normalized_service = strip py (lower py service);
          normalized_profile = strip py (lower py profile_name);
          prompts = get_or (service_prompts cfg normalized_service) Map.empty
      in prompts normalized_profile)"

section \<open>The media manager's API (\<open>radarr.py\<close>, \<open>sonarr.py\<close>)\<close>

text \<open>
  The answers of one Radarr or Sonarr server to the three GET requests the source makes;
  \<open>None\<close> is a request that raised.  \<open>get_media i\<close> is \<open>movie/{i}\<close> or \<open>series/{i}\<close>.
\<close>

record media_info =
  tags :: "int list option"
  qualityProfileId :: "int option"

record arr_api =
  get_media :: "int \<Rightarrow> media_info option"
  get_tag :: "(int \<times> string) list option"
  get_qualityprofile :: "(int option \<times> string option) list option"

text \<open>\<open>get_quality_profile_name\<close>; every exception ends in \<open>'default'\<close>.\<close>

definition get_quality_profile_name :: "arr_api \<Rightarrow> int \<Rightarrow> string" where
  "get_quality_profile_name api media_id =
     (case get_media api media_id of
        None \<Rightarrow> ''default''
      | Some m \<Rightarrow>
          (let profile_id = get_or (qualityProfileId m) 0
           in case get_qualityprofile api of
                None \<Rightarrow> ''default''
              | Some profiles \<Rightarrow>
                  (case find (\<lambda>p. fst p = Some profile_id) profiles of
                     None \<Rightarrow> ''default''
                   | Some p \<Rightarrow> get_or (snd p) ''default'')))"

text \<open>\<open>get_movie_tags\<close> and \<open>get_series_tags\<close>; every exception ends in the empty list.
  In \<open>tag_map\<close> a later label replaces an earlier one with the same id.\<close>

definition get_tags :: "python \<Rightarrow> arr_api \<Rightarrow> int \<Rightarrow> string list" where
  "get_tags py api media_id =
     (case get_media api media_id of
        None \<Rightarrow> []
      | Some m \<Rightarrow>
          (let tag_ids = get_or (tags m) []
           in if tag_ids = [] then []
              else case get_tag api of
                     None \<Rightarrow> []
                   | Some all_tags \<Rightarrow>
                       (let tag_map = map_of (rev (map (\<lambda>(i, label). (i, lower py label)) all_tags))
                        in List.map_filter tag_map tag_ids)))"

section \<open>The model client (\<open>llm.py\<close>)\<close>

text \<open>
  An exception is kept as its class, as far as the handlers tell classes apart, and its
  message \<open>str(e)\<close>.
\<close>

datatype py_exception = JSONDecodeError string | OtherException string

text \<open>
  A value of the model's JSON answer.  The source formats such a value and tests its type,
  nothing more, so a float, a list or an object is kept as the name of its Python type and
  its \<open>str()\<close> text.
\<close>

datatype pyval = PyNone | PyBool bool | PyInt int | PyStr string | PyOther string string

datatype loaded = Loaded_dict "string \<rightharpoonup> pyval" | Loaded_other string

fun py_str :: "pyval \<Rightarrow> string" where
  "py_str PyNone = ''None''"
| "py_str (PyBool b) = (if b then ''True'' else ''False'')"
| "py_str (PyInt i) = str_int i"
| "py_str (PyStr s) = s"
| "py_str (PyOther t s) = s"

fun py_type :: "pyval \<Rightarrow> string" where
  "py_type PyNone = ''NoneType''"
| "py_type (PyBool b) = ''bool''"
| "py_type (PyInt i) = ''int''"
| "py_type (PyStr s) = ''str''"
| "py_type (PyOther t s) = t"

text \<open>
  The outside of the model client.  \<open>chat_completions system_prompt user_prompt\<close> is the
  POST to \<open>/chat/completions\<close> up to \<open>result['choices'][0]['message']['content']\<close>: the
  content, or the exception raised on the way.  \<open>json_loads\<close> is Python's \<open>json.loads\<close>;
  \<open>Loaded_other t\<close> is a value of type \<open>t\<close> that is not a dictionary.
\<close>

record llm_env =
  chat_completions :: "string \<Rightarrow> string \<Rightarrow> py_exception + string"
  json_loads :: "string \<Rightarrow> py_exception + loaded"

text \<open>What a handler does besides answering: the model request and the calls of
  \<open>send_notification\<close> (title, message, priority, tags), in order.\<close>

datatype effect =
    LlmRequest string string
  | Notification string string string "string list"

definition USER_PROMPT_TEMPLATE :: "string \<Rightarrow> string \<Rightarrow> string \<Rightarrow> string" where
  \<open>USER_PROMPT_TEMPLATE media_title profile_name releases_text =
     ''Media: '' @ media_title @ nl @
     ''Quality Profile: '' @ profile_name @ nl @
     nl @
     releases_text @ nl @
     nl @
     ''Select the best release. Respond with JSON only: {"choice": <number>, "reason": "<brief reason>"}''\<close>

definition fence :: string where
  "fence = ''```''"

text \<open>The loop over the lines of a fenced answer; the result is \<open>json_lines\<close>.\<close>

fun fenced_lines :: "bool \<Rightarrow> string list \<Rightarrow> string list" where
  "fenced_lines in_block [] = []"
| "fenced_lines in_block (line # lines) =
     (if startswith line fence \<and> \<not> in_block then fenced_lines True lines
      else if startswith line fence \<and> in_block then []
      else if in_block then line # fenced_lines in_block lines
      else fenced_lines in_block lines)"

text \<open>The two \<open>except\<close> clauses of \<open>ask_ai_for_selection\<close>.\<close>

fun on_exception :: "py_exception \<Rightarrow> int option \<times> pyval" where
  "on_exception (JSONDecodeError e) = (None, PyStr (''Invalid JSON response: '' @ e))"
| "on_exception (OtherException e) = (None, PyStr e)"

text \<open>The branch \<open>if content.startswith('```')\<close>: the lines between the fence markers.\<close>

definition strip_fence :: "string \<Rightarrow> string" where
  "strip_fence content =
     (if startswith content fence then join nl (fenced_lines False (split_nl content))
      else content)"

text \<open>
  The body of the \<open>try\<close> after the request.  \<open>isinstance(choice, int)\<close> holds of a Python
  \<open>bool\<close> too, which then counts as 1 or 0; \<open>parsed.get\<close> on a value that is no
  dictionary raises AttributeError.
\<close>

definition read_answer ::
  "python \<Rightarrow> llm_env \<Rightarrow> py_exception + string \<Rightarrow> int option \<times> pyval" where
  "read_answer py llm response =
     (case response of
        Inl e \<Rightarrow> on_exception e
      | Inr text \<Rightarrow>
          (let content = strip_fence (strip py text)
           in case json_loads llm content of
                Inl e \<Rightarrow> on_exception e
              | Inr (Loaded_other t) \<Rightarrow>
                  on_exception (OtherException
                    (quote @ t @ quote @ '' object has no attribute '' @ quote @ ''get'' @ quote))
              | Inr (Loaded_dict parsed) \<Rightarrow>
                  (let choice = get_or (parsed ''choice'') PyNone;
                       reason = get_or (parsed ''reason'') (PyStr ''No reason provided'')
                   in case choice of
                        PyInt n \<Rightarrow> (Some n, reason)
                      | PyBool b \<Rightarrow> (Some (if b then 1 else 0), reason)
                      | _ \<Rightarrow>
                          (None, PyStr (''Invalid choice type: <class '' @ quote @ py_type choice @
                                        quote @ ''>'')))))"

definition ask_ai_for_selection ::
  "python \<Rightarrow> config \<Rightarrow> llm_env \<Rightarrow> release list \<Rightarrow> string \<Rightarrow> string \<Rightarrow> string
     \<Rightarrow> (int option \<times> pyval) \<times> effect list" where
  "ask_ai_for_selection py cfg llm releases media_title profile_name service =
     (case get_system_prompt_for_profile py cfg service profile_name of
        None \<Rightarrow> ((None, PyStr ''AI bypassed - no prompt for this profile''), [])
      | Some system_prompt \<Rightarrow>
          (let releases_text = format_releases_for_ai releases media_title;
               user_prompt = USER_PROMPT_TEMPLATE media_title profile_name releases_text
           in (read_answer py llm (chat_completions llm system_prompt user_prompt),
               [LlmRequest system_prompt user_prompt])))"

section \<open>The webhook handlers (\<open>routes.py\<close>)\<close>

text \<open>
  The request body: \<open>subject\<close> is the key \<open>movie\<close> of a Radarr payload and the key
  \<open>series\<close> of a Sonarr payload, with its keys \<open>id\<close> and \<open>title\<close>.  A handler receives
  \<open>None\<close> for a body that Python counts as false.  As for a release, a key is absent or
  carries the JSON type the media manager sends; a body of another shape, on which the Python
  raises, is not a value of these types.
\<close>

record media =
  media_id :: "int option"
  media_title :: "string option"

record payload =
  eventType :: "string option"
  subject :: "media option"
  releases :: "release list option"

text \<open>The JSON object a handler answers with; \<open>selectedReleaseGuid = None\<close> is an answer
  without that key.  The handler returns it with the HTTP status.\<close>

record response =
  approved :: bool
  selectedReleaseGuid :: "string option option"
  reason :: pyval

text \<open>
  \<open>webhook_radarr_override\<close> and \<open>webhook_sonarr_override\<close> are the same text up to the
  names below, so one function, \<open>webhook_override\<close>, is both of them.
\<close>

datatype app = Radarr | Sonarr

fun app_name :: "app \<Rightarrow> string" where
  "app_name Radarr = ''Radarr''"
| "app_name Sonarr = ''Sonarr''"

fun app_service :: "app \<Rightarrow> string" where
  "app_service Radarr = ''radarr''"
| "app_service Sonarr = ''sonarr''"

fun app_config :: "app \<Rightarrow> config \<Rightarrow> arr_config option" where
  "app_config Radarr cfg = radarr cfg"
| "app_config Sonarr cfg = sonarr cfg"

fun override_tags :: "app \<Rightarrow> string list" where
  "override_tags Radarr = [''movie_camera'']"
| "override_tags Sonarr = [''tv'']"

text \<open>\<open>sub in reason\<close>, for the reason \<open>ask_ai_for_selection\<close> returned.\<close>

fun reason_contains :: "string \<Rightarrow> pyval \<Rightarrow> bool" where
  "reason_contains sub (PyStr s) = contains sub s"
| "reason_contains sub v = False"

text \<open>
  The handler from the return of \<open>ask_ai_for_selection\<close> on: the answer, its status and the
  notifications sent.
\<close>

definition decide ::
  "app \<Rightarrow> config \<Rightarrow> release list \<Rightarrow> string \<Rightarrow> string \<Rightarrow> int option \<Rightarrow> pyval
     \<Rightarrow> (response \<times> nat) \<times> effect list" where
  "decide app cfg rels movie_title profile_name choice reason_v =
     (if choice = None \<and> reason_contains ''AI bypassed'' reason_v then
        ((\<lparr>approved = True, selectedReleaseGuid = None, reason = reason_v\<rparr>, 200), [])
      else if choice = None \<or> get_or choice 0 < 1 \<or> get_or choice 0 > int (length rels) then
        ((\<lparr>approved = True, selectedReleaseGuid = None,
           reason = PyStr (''AI failed: '' @ py_str reason_v @ '', using default'')\<rparr>, 200),
         [Notification (''AI Warning: '' @ movie_title)
            (''Selection failed: '' @ py_str reason_v @ nl @ ''Using '' @ app_name app @ '' default'')
            ''low'' [''warning'']])
      else
        (let selected = rels ! nat (get_or choice 0 - 1);
             selected_guid = guid selected;
             selected_title = get_or (title selected) ''Unknown'';
             size_gb = str_round2 (get_or (size_bytes selected) 0);
             default_selected = find (\<lambda>r. isSelected r = Some True) rels;
             is_same_as_default =
               (case default_selected of None \<Rightarrow> False | Some d \<Rightarrow> guid d = selected_guid)
         in if is_same_as_default then
              ((\<lparr>approved = True, selectedReleaseGuid = None,
                 reason = PyStr (''AI confirms default: '' @ py_str reason_v)\<rparr>, 200), [])
            else if dry_run cfg then
              ((\<lparr>approved = True, selectedReleaseGuid = None,
                 reason = PyStr (''[DRY RUN] Would select: '' @ selected_title)\<rparr>, 200), [])
            else
              ((\<lparr>approved = True, selectedReleaseGuid = Some selected_guid, reason = reason_v\<rparr>, 200),
               [Notification (''AI Override: '' @ movie_title)
                  (''Profile: '' @ profile_name @ nl @
                   ''Release: '' @ selected_title @ nl @
                   ''Size: '' @ size_gb @ '' GB'' @ nl @
                   ''Reason: '' @ py_str reason_v)
                  ''default'' (override_tags app)])))"

text \<open>
  The handler's local variables \<open>movie_id\<close> (\<open>series_id\<close>), \<open>movie_title\<close>, the skip-tag
  test (made only for an id that Python counts as true) and \<open>profile_name\<close>.
\<close>

definition request_id :: "payload \<Rightarrow> int option" where
  "request_id p = (case subject p of None \<Rightarrow> None | Some m \<Rightarrow> media_id m)"

definition request_title :: "payload \<Rightarrow> string" where
  "request_title p =
     (case subject p of None \<Rightarrow> ''Unknown'' | Some m \<Rightarrow> get_or (media_title m) ''Unknown'')"

definition skip_tagged :: "python \<Rightarrow> config \<Rightarrow> arr_api \<Rightarrow> payload \<Rightarrow> bool" where
  "skip_tagged py cfg api p =
     (case request_id p of
        None \<Rightarrow> False
      | Some i \<Rightarrow> i \<noteq> 0 \<and> skip_tag cfg \<in> set (get_tags py api i))"

definition request_profile :: "arr_api \<Rightarrow> payload \<Rightarrow> string" where
  "request_profile api p =
     (case request_id p of
        None \<Rightarrow> ''unknown''
      | Some i \<Rightarrow> if i \<noteq> 0 then get_quality_profile_name api i else ''unknown'')"

definition webhook_override ::
  "python \<Rightarrow> app \<Rightarrow> config \<Rightarrow> arr_api \<Rightarrow> llm_env \<Rightarrow> payload option
     \<Rightarrow> (response \<times> nat) \<times> effect list" where
  "webhook_override py app cfg api llm request_json =
     (if app_config app cfg = None then
        ((\<lparr>approved = True, selectedReleaseGuid = None,
           reason = PyStr (app_name app @ '' not configured'')\<rparr>, 200), [])
      else case request_json of
        None \<Rightarrow>
          ((\<lparr>approved = True, selectedReleaseGuid = None, reason = PyStr ''Empty payload''\<rparr>, 200), [])
      | Some payload \<Rightarrow>
          (let event_type = get_or (eventType payload) []
           in if event_type \<noteq> ''DownloadDecisionOverride'' then
                ((\<lparr>approved = True, selectedReleaseGuid = None,
                   reason = PyStr (''Ignored event type: '' @ event_type)\<rparr>, 200), [])
              else
                (let movie_title = request_title payload;
                     rels = get_or (releases payload) []
                 in if rels = [] then
                      ((\<lparr>approved = True, selectedReleaseGuid = None,
                         reason = PyStr ''No releases to evaluate''\<rparr>, 200), [])
                    else if skip_tagged py cfg api payload then
                      ((\<lparr>approved = True, selectedReleaseGuid = None,
                         reason = PyStr (''Skipped: tag '' @ skip_tag cfg @ '' present'')\<rparr>, 200), [])
                    else
                      (let profile_name = request_profile api payload;
                           asked = ask_ai_for_selection py cfg llm rels movie_title profile_name
                                     (app_service app);
                           decided = decide app cfg rels movie_title profile_name
                                       (fst (fst asked)) (snd (fst asked))
                       in (fst decided, snd asked @ snd decided)))))"

definition webhook_radarr_override ::
  "python \<Rightarrow> config \<Rightarrow> arr_api \<Rightarrow> llm_env \<Rightarrow> payload option
     \<Rightarrow> (response \<times> nat) \<times> effect list" where
  "webhook_radarr_override py = webhook_override py Radarr"

definition webhook_sonarr_override ::
  "python \<Rightarrow> config \<Rightarrow> arr_api \<Rightarrow> llm_env \<Rightarrow> payload option
     \<Rightarrow> (response \<times> nat) \<times> effect list" where
  "webhook_sonarr_override py = webhook_override py Sonarr"

section \<open>Vocabulary of the statements and example requests\<close>

fun is_notification :: "effect \<Rightarrow> bool" where
  "is_notification (Notification t m p ts) = True"
| "is_notification (LlmRequest s u) = False"

fun is_llm_request :: "effect \<Rightarrow> bool" where
  "is_llm_request (LlmRequest s u) = True"
| "is_llm_request (Notification t m p ts) = False"

text \<open>The failure notification is the one sent with priority \<open>low\<close> and the tag \<open>warning\<close>.\<close>

fun is_failure_notification :: "effect \<Rightarrow> bool" where
  "is_failure_notification (Notification t m p ts) = (p = ''low'' \<and> ts = [''warning''])"
| "is_failure_notification (LlmRequest s u) = False"

text \<open>The release the handler picks for the 1-based index \<open>c\<close>: \<open>releases[c - 1]\<close>.\<close>

definition chosen :: "release list \<Rightarrow> int \<Rightarrow> release" where
  "chosen rels c = rels ! nat (c - 1)"

definition no_keys :: release where
  "no_keys = \<lparr>guid = None, title = None, size_bytes = None, quality = None, indexer = None,
              seeders = None, customFormatScore = None, languages = None, customFormats = None,
              isSelected = None, ageMinutes = None, indexerFlags = None\<rparr>"

definition release_a :: release where
  "release_a = no_keys\<lparr>guid := Some ''a'', title := Some ''Film.2019.1080p.BluRay'',
                        size_bytes := Some 5368709120, isSelected := Some True,
                        ageMinutes := Some 59\<rparr>"

definition release_b :: release where
  "release_b = no_keys\<lparr>guid := Some ''b'', title := Some ''Film.2019.2160p.WEB'',
                        size_bytes := Some 10737418240, seeders := Some 12\<rparr>"

definition release_c :: release where
  "release_c = no_keys\<lparr>guid := Some ''c'', title := Some ''Film.2019.720p.HDTV'',
                        isSelected := Some True\<rparr>"

text \<open>
  The interpreter of the examples: \<open>str.lower\<close> and \<open>str.strip\<close> as they act on a string
  of ASCII characters, which is what every example below holds.  \<open>lower\<close> maps the letters
  \<open>A\<close> to \<open>Z\<close>; \<open>strip\<close> removes the ten ASCII characters of which \<open>str.isspace\<close>
  holds.
\<close>

definition ascii_lower_char :: "char \<Rightarrow> char" where
  "ascii_lower_char c =
     (case map_of (zip ''ABCDEFGHIJKLMNOPQRSTUVWXYZ'' ''abcdefghijklmnopqrstuvwxyz'') c of
        Some d \<Rightarrow> d
      | None \<Rightarrow> c)"

definition ascii_lower :: "string \<Rightarrow> string" where
  "ascii_lower s = map ascii_lower_char s"

definition ascii_isspace :: "char \<Rightarrow> bool" where
  "ascii_isspace c = (c \<in> set [CHR 0x09, CHR 0x0A, CHR 0x0B, CHR 0x0C, CHR 0x0D,
                                CHR 0x1C, CHR 0x1D, CHR 0x1E, CHR 0x1F, CHR 0x20])"

definition ascii_strip :: "string \<Rightarrow> string" where
  "ascii_strip s = rev (dropWhile ascii_isspace (rev (dropWhile ascii_isspace s)))"

definition ascii_python :: python where
  "ascii_python = \<lparr>lower = ascii_lower, strip = ascii_strip\<rparr>"

definition example_dir :: prompts_dir where
  "example_dir =
     Some (\<lambda>service.
       if service = ''radarr''
       then Some [(''HD-1080p'', Directory (Some ''Prefer small files. '')),
                  (''notes.txt'', Plain_file),
                  (''Empty'', Directory None)]
       else None)"

definition example_cfg :: config where
  "example_cfg =
     \<lparr>radarr = Some \<lparr>url = ''http://radarr:7878'', api_key = ''key''\<rparr>,
      sonarr = Some \<lparr>url = ''http://sonarr:8989'', api_key = ''key''\<rparr>,
      service_prompts = load_service_prompts ascii_python example_dir, dry_run = False, skip_tag = ''no-ai''\<rparr>"

definition example_api :: arr_api where
  "example_api =
     \<lparr>get_media = (\<lambda>i. Some \<lparr>tags = Some [1], qualityProfileId = Some 4\<rparr>),
      get_tag = Some [(1, ''Keep'')],
      get_qualityprofile = Some [(Some 4, Some ''HD-1080p'')]\<rparr>"

text \<open>A model whose answer parses to \<open>v\<close>, and a model whose request raises with message
  \<open>msg\<close>.\<close>

definition answering :: "loaded \<Rightarrow> llm_env" where
  "answering v = \<lparr>chat_completions = (\<lambda>s u. Inr ''{}''), json_loads = (\<lambda>c. Inr v)\<rparr>"

definition failing :: "string \<Rightarrow> llm_env" where
  "failing msg =
     \<lparr>chat_completions = (\<lambda>s u. Inl (OtherException msg)),
      json_loads = (\<lambda>c. Inl (JSONDecodeError ''Expecting value: line 1 column 1 (char 0)''))\<rparr>"

definition example_payload :: "release list \<Rightarrow> payload" where
  "example_payload rels =
     \<lparr>eventType = Some ''DownloadDecisionOverride'',
      subject = Some \<lparr>media_id = Some 7, media_title = Some ''Film''\<rparr>,
      releases = Some rels\<rparr>"

section \<open>Facts about the handler and the model client\<close>

lemma decide_approved: "approved (fst (fst (decide app cfg rels t pn ch r))) = True"
  by (simp add: decide_def Let_def)

lemma decide_status: "snd (fst (decide app cfg rels t pn ch r)) = 200"
  by (simp add: decide_def Let_def)

lemma webhook_override_asks:
  assumes "app_config app cfg \<noteq> None"
    and "eventType p = Some ''DownloadDecisionOverride''"
    and "releases p = Some rels"
    and "rels \<noteq> []"
    and "\<not> skip_tagged py cfg api p"
  shows "webhook_override py app cfg api llm (Some p) =
           (fst (decide app cfg rels (request_title p) (request_profile api p)
                   (fst (fst (ask_ai_for_selection py cfg llm rels (request_title p)
                                (request_profile api p) (app_service app))))
                   (snd (fst (ask_ai_for_selection py cfg llm rels (request_title p)
                                (request_profile api p) (app_service app))))),
            snd (ask_ai_for_selection py cfg llm rels (request_title p)
                   (request_profile api p) (app_service app)) @
            snd (decide app cfg rels (request_title p) (request_profile api p)
                   (fst (fst (ask_ai_for_selection py cfg llm rels (request_title p)
                                (request_profile api p) (app_service app))))
                   (snd (fst (ask_ai_for_selection py cfg llm rels (request_title p)
                                (request_profile api p) (app_service app))))))"
  using assms
  by (cases "app_config app cfg") (simp_all add: webhook_override_def Let_def get_or_def)

lemma ask_ai_no_prompt:
  "get_system_prompt_for_profile py cfg service profile_name = None \<Longrightarrow>
   ask_ai_for_selection py cfg llm rels t profile_name service =
     ((None, PyStr ''AI bypassed - no prompt for this profile''), [])"
  by (simp add: ask_ai_for_selection_def)

lemma ask_ai_prompt:
  "get_system_prompt_for_profile py cfg service profile_name = Some sp \<Longrightarrow>
   ask_ai_for_selection py cfg llm rels t profile_name service =
     (read_answer py llm (chat_completions llm sp
        (USER_PROMPT_TEMPLATE t profile_name (format_releases_for_ai rels t))),
      [LlmRequest sp (USER_PROMPT_TEMPLATE t profile_name (format_releases_for_ai rels t))])"
  by (simp add: ask_ai_for_selection_def Let_def)

lemma ask_ai_no_notification:
  "filter is_notification (snd (ask_ai_for_selection py cfg llm rels t pn service)) = []"
  by (cases "get_system_prompt_for_profile py cfg service pn")
     (simp_all add: ask_ai_no_prompt ask_ai_prompt)

lemma bypass_sentinel: "contains ''AI bypassed'' ''AI bypassed - no prompt for this profile''"
  by simp

lemma decide_bypass:
  "reason_contains ''AI bypassed'' r \<Longrightarrow>
   decide app cfg rels t pn None r =
     ((\<lparr>approved = True, selectedReleaseGuid = None, reason = r\<rparr>, 200), [])"
  by (simp add: decide_def)

lemma webhook_effects_no_prompt:
  assumes "get_system_prompt_for_profile py cfg (app_service app) (request_profile api p) = None"
  shows "snd (webhook_override py app cfg api llm (Some p)) = []"
  using assms
  by (simp add: webhook_override_def Let_def ask_ai_no_prompt decide_bypass)

lemma decide_failed:
  assumes "(ch = None \<and> \<not> reason_contains ''AI bypassed'' r)
           \<or> (\<exists>c. ch = Some c \<and> (c < 1 \<or> int (length rels) < c))"
  shows "decide app cfg rels t pn ch r =
           ((\<lparr>approved = True, selectedReleaseGuid = None,
              reason = PyStr (''AI failed: '' @ py_str r @ '', using default'')\<rparr>, 200),
            [Notification (''AI Warning: '' @ t)
               (''Selection failed: '' @ py_str r @ nl @ ''Using '' @ app_name app @ '' default'')
               ''low'' [''warning'']])"
  using assms by (auto simp add: decide_def get_or_def)

lemma decide_confirms:
  assumes "1 \<le> c" and "c \<le> int (length rels)"
    and "find (\<lambda>x. isSelected x = Some True) rels = Some d"
    and "guid d = guid (chosen rels c)"
  shows "decide app cfg rels t pn (Some c) r =
           ((\<lparr>approved = True, selectedReleaseGuid = None,
              reason = PyStr (''AI confirms default: '' @ py_str r)\<rparr>, 200), [])"
  using assms by (simp add: decide_def get_or_def chosen_def Let_def)

lemma decide_overrides:
  assumes "1 \<le> c" and "c \<le> int (length rels)"
    and "map_option guid (find (\<lambda>x. isSelected x = Some True) rels) \<noteq> Some (guid (chosen rels c))"
  shows "decide app cfg rels t pn (Some c) r =
           (if dry_run cfg then
              ((\<lparr>approved = True, selectedReleaseGuid = None,
                 reason = PyStr (''[DRY RUN] Would select: '' @
                                 get_or (title (chosen rels c)) ''Unknown'')\<rparr>, 200), [])
            else
              ((\<lparr>approved = True, selectedReleaseGuid = Some (guid (chosen rels c)), reason = r\<rparr>, 200),
               [Notification (''AI Override: '' @ t)
                  (''Profile: '' @ pn @ nl @
                   ''Release: '' @ get_or (title (chosen rels c)) ''Unknown'' @ nl @
                   ''Size: '' @ str_round2 (get_or (size_bytes (chosen rels c)) 0) @ '' GB'' @ nl @
                   ''Reason: '' @ py_str r)
                  ''default'' (override_tags app)]))"
  using assms
  by (cases "find (\<lambda>x. isSelected x = Some True) rels")
     (simp_all add: decide_def chosen_def Let_def get_or_def)

lemma find_first:
  assumes "i < length xs" and "P (xs ! i)" and "\<forall>j<i. \<not> P (xs ! j)"
  shows "find P xs = Some (xs ! i)"
  using assms by (auto simp add: find_Some_iff)

lemma find_SomeD: "find P xs = Some d \<Longrightarrow> d \<in> set xs \<and> P d"
  by (auto simp add: find_Some_iff)

text \<open>A model client that returns no choice returns a string as its reason, so the test
  \<open>"AI bypassed" in reason\<close> of the handlers never meets another type.\<close>

lemma on_exception_str: "\<exists>s. on_exception e = (None, PyStr s)"
  by (cases e) simp_all

lemma read_answer_None_str:
  assumes "read_answer py llm response = (None, r)"
  shows "\<exists>s. r = PyStr s"
proof (cases response)
  case (Inl e)
  then show ?thesis
    using assms on_exception_str [of e] by (auto simp add: read_answer_def)
next
  case (Inr body)
  show ?thesis
  proof (cases "json_loads llm (strip_fence (strip py body))")
    case (Inl e)
    then show ?thesis
      using assms Inr on_exception_str [of e] by (auto simp add: read_answer_def)
  next
    case loaded: (Inr v)
    show ?thesis
    proof (cases v)
      case (Loaded_other t)
      then show ?thesis
        using assms Inr loaded by (auto simp add: read_answer_def)
    next
      case (Loaded_dict parsed)
      then show ?thesis
        using assms Inr loaded
        by (cases "get_or (parsed ''choice'') PyNone") (auto simp add: read_answer_def Let_def)
    qed
  qed
qed

lemma ask_ai_None_str:
  assumes "fst (ask_ai_for_selection py cfg llm rels t pn service) = (None, r)"
  shows "\<exists>s. r = PyStr s"
proof (cases "get_system_prompt_for_profile py cfg service pn")
  case None
  then show ?thesis
    using assms by (auto simp add: ask_ai_no_prompt)
next
  case (Some sp)
  then show ?thesis
    using assms read_answer_None_str by (auto simp add: ask_ai_prompt)
qed

lemma decide_failure_notification:
  assumes "\<exists>e\<in>set (snd (decide app cfg rels t pn ch r)). is_failure_notification e"
  shows "(ch = None \<and> \<not> reason_contains ''AI bypassed'' r)
         \<or> (\<exists>c. ch = Some c \<and> (c < 1 \<or> int (length rels) < c))"
  using assms
  by (cases ch) (auto simp add: decide_def Let_def get_or_def split: if_splits)

lemma decide_selected:
  assumes "selectedReleaseGuid (fst (fst (decide app cfg rels t pn ch r))) = Some g"
  shows "\<exists>c. ch = Some c \<and> 1 \<le> c \<and> c \<le> int (length rels) \<and> g = guid (chosen rels c)
             \<and> \<not> dry_run cfg
             \<and> map_option guid (find (\<lambda>x. isSelected x = Some True) rels)
                 \<noteq> Some (guid (chosen rels c))"
  using assms
  by (cases ch)
     (auto simp add: decide_def Let_def get_or_def chosen_def split: if_splits option.splits)

lemma webhook_override_early:
  assumes "\<not> (\<exists>p rels. request_json = Some p \<and> app_config app cfg \<noteq> None
                \<and> eventType p = Some ''DownloadDecisionOverride''
                \<and> releases p = Some rels \<and> rels \<noteq> [] \<and> \<not> skip_tagged py cfg api p)"
  shows "snd (webhook_override py app cfg api llm request_json) = []
         \<and> selectedReleaseGuid (fst (fst (webhook_override py app cfg api llm request_json))) = None"
proof (cases "app_config app cfg")
  case None
  then show ?thesis
    by (simp add: webhook_override_def)
next
  case configured: (Some conf)
  show ?thesis
  proof (cases request_json)
    case None
    then show ?thesis
      using configured by (simp add: webhook_override_def)
  next
    case (Some p)
    show ?thesis
    proof (cases "eventType p = Some ''DownloadDecisionOverride''")
      case False
      then show ?thesis
        using configured Some
        by (cases "eventType p") (simp_all add: webhook_override_def Let_def get_or_def)
    next
      case event: True
      show ?thesis
      proof (cases "get_or (releases p) [] = []")
        case True
        then show ?thesis
          using configured Some event by (simp add: webhook_override_def Let_def get_or_def)
      next
        case False
        then obtain rels where "releases p = Some rels" "rels \<noteq> []"
          by (cases "releases p") (simp_all add: get_or_def)
        then have "skip_tagged py cfg api p"
          using assms configured Some event by simp
        then show ?thesis
          using configured Some event False by (simp add: webhook_override_def Let_def get_or_def)
      qed
    qed
  qed
qed

lemma failure_notification_branch:
  assumes "\<exists>e\<in>set (snd (webhook_override py app cfg api llm request_json)). is_failure_notification e"
  shows "\<exists>p rels ch r. request_json = Some p \<and> app_config app cfg \<noteq> None
           \<and> eventType p = Some ''DownloadDecisionOverride''
           \<and> releases p = Some rels \<and> rels \<noteq> [] \<and> \<not> skip_tagged py cfg api p
           \<and> fst (ask_ai_for_selection py cfg llm rels (request_title p) (request_profile api p)
                     (app_service app)) = (ch, r)
           \<and> ((ch = None \<and> \<not> reason_contains ''AI bypassed'' r)
                \<or> (\<exists>c. ch = Some c \<and> (c < 1 \<or> int (length rels) < c)))"
proof -
  have "snd (webhook_override py app cfg api llm request_json) \<noteq> []"
    using assms by auto
  then obtain p rels where stage: "request_json = Some p" "app_config app cfg \<noteq> None"
      "eventType p = Some ''DownloadDecisionOverride''" "releases p = Some rels" "rels \<noteq> []"
      "\<not> skip_tagged py cfg api p"
    using webhook_override_early [where request_json = request_json and app = app and cfg = cfg
        and py = py and api = api and llm = llm] by blast
  let ?asked = "ask_ai_for_selection py cfg llm rels (request_title p) (request_profile api p)
                  (app_service app)"
  let ?decided = "decide app cfg rels (request_title p) (request_profile api p)
                    (fst (fst ?asked)) (snd (fst ?asked))"
  have "snd (webhook_override py app cfg api llm request_json) = snd ?asked @ snd ?decided"
    using stage by (simp add: webhook_override_asks)
  moreover have "\<forall>e\<in>set (snd ?asked). \<not> is_failure_notification e"
    by (cases "get_system_prompt_for_profile py cfg (app_service app) (request_profile api p)")
       (simp_all add: ask_ai_no_prompt ask_ai_prompt)
  ultimately have "\<exists>e\<in>set (snd ?decided). is_failure_notification e"
    using assms by auto
  then have "(fst (fst ?asked) = None \<and> \<not> reason_contains ''AI bypassed'' (snd (fst ?asked)))
         \<or> (\<exists>c. fst (fst ?asked) = Some c \<and> (c < 1 \<or> int (length rels) < c))"
    by (rule decide_failure_notification)
  then show ?thesis
    using stage by (intro exI [of _ p] exI [of _ rels] exI [of _ "fst (fst ?asked)"]
        exI [of _ "snd (fst ?asked)"]) simp
qed

lemma selected_guid_branch:
  assumes "selectedReleaseGuid (fst (fst (webhook_override py app cfg api llm request_json))) = Some g"
  shows "\<exists>p rels c r. request_json = Some p \<and> app_config app cfg \<noteq> None
           \<and> eventType p = Some ''DownloadDecisionOverride''
           \<and> releases p = Some rels \<and> rels \<noteq> [] \<and> \<not> skip_tagged py cfg api p
           \<and> fst (ask_ai_for_selection py cfg llm rels (request_title p) (request_profile api p)
                     (app_service app)) = (Some c, r)
           \<and> 1 \<le> c \<and> c \<le> int (length rels) \<and> g = guid (chosen rels c)
           \<and> \<not> dry_run cfg
           \<and> map_option guid (find (\<lambda>x. isSelected x = Some True) rels)
               \<noteq> Some (guid (chosen rels c))"
proof -
  obtain p rels where stage: "request_json = Some p" "app_config app cfg \<noteq> None"
      "eventType p = Some ''DownloadDecisionOverride''" "releases p = Some rels" "rels \<noteq> []"
      "\<not> skip_tagged py cfg api p"
    using assms webhook_override_early [where request_json = request_json and app = app and cfg = cfg
        and py = py and api = api and llm = llm] by fastforce
  let ?asked = "ask_ai_for_selection py cfg llm rels (request_title p) (request_profile api p)
                  (app_service app)"
  have "selectedReleaseGuid (fst (fst (decide app cfg rels (request_title p) (request_profile api p)
                    (fst (fst ?asked)) (snd (fst ?asked))))) = Some g"
    using assms stage by (simp add: webhook_override_asks)
  then obtain c where "fst (fst ?asked) = Some c" "1 \<le> c" "c \<le> int (length rels)"
      "g = guid (chosen rels c)" "\<not> dry_run cfg"
      "map_option guid (find (\<lambda>x. isSelected x = Some True) rels) \<noteq> Some (guid (chosen rels c))"
    using decide_selected by blast
  then show ?thesis
    using stage
    by (intro exI [of _ p] exI [of _ rels] exI [of _ c] exI [of _ "snd (fst ?asked)"])
       (simp add: prod_eq_iff)
qed

section \<open>Facts about the prompt table\<close>

lemma load_system_prompt_Some:
  "load_system_prompt py f = Some s \<longleftrightarrow> (\<exists>body. f = Some body \<and> strip py body \<noteq> [] \<and> s = strip py body)"
  by (cases f) (auto simp add: load_system_prompt_def Let_def)

lemma load_profiles_dom:
  "k \<in> dom (load_profiles py es m) \<longleftrightarrow>
     k \<in> dom m \<or>
     (\<exists>name body. (name, Directory (Some body)) \<in> set es \<and> strip py body \<noteq> [] \<and> lower py name = k)"
proof (induction py es m rule: load_profiles.induct)
  case (1 py prompts)
  then show ?case by simp
next
  case (2 py profile rest prompts)
  then show ?case by auto
next
  case (3 py profile system_txt rest prompts)
  show ?case
  proof (cases "load_system_prompt py system_txt")
    case None
    then have step: "load_profiles py ((profile, Directory system_txt) # rest) prompts =
                     load_profiles py rest prompts"
      by simp
    have nobody: "strip py body = []" if "system_txt = Some body" for body
      using None that by (auto simp add: load_system_prompt_def Let_def split: if_splits)
    show ?thesis
      unfolding step 3(1) [OF None] using nobody by auto
  next
    case (Some s)
    then have step: "load_profiles py ((profile, Directory system_txt) # rest) prompts =
                     load_profiles py rest (prompts(lower py profile \<mapsto> s))"
      by simp
    obtain body where body: "system_txt = Some body" "strip py body \<noteq> []"
      using Some by (auto simp add: load_system_prompt_Some)
    have upd: "k \<in> dom (prompts(lower py profile \<mapsto> s)) \<longleftrightarrow> k = lower py profile \<or> k \<in> dom prompts"
      by auto
    show ?thesis
      unfolding step 3(2) [OF Some] upd using body by auto
  qed
qed

lemma load_service_prompts_lookup:
  "load_service_prompts py dir s =
     (if s = ''radarr'' \<or> s = ''sonarr''
      then Some (case dir of
                   None \<Rightarrow> Map.empty
                 | Some listdir \<Rightarrow>
                     (case listdir s of
                        None \<Rightarrow> Map.empty
                      | Some es \<Rightarrow> load_profiles py es Map.empty))
      else None)"
  by (cases dir) (auto simp add: load_service_prompts_def get_or_def split: option.splits)

section \<open>Facts about the rounded division\<close>

lemma bit_length_bounds: "0 < n \<Longrightarrow> 2 ^ (bit_length n - 1) \<le> n \<and> n < 2 ^ bit_length n"
proof (induction n rule: bit_length.induct)
  case (1 n)
  show ?case
  proof (cases "n div 2 = 0")
    case True
    then have "n = 1"
      using 1(2) by (simp add: div_eq_0_iff)
    then show ?thesis
      by (simp add: bit_length.simps [of "Suc 0"] bit_length.simps [of 0])
  next
    case False
    then have ih: "2 ^ (bit_length (n div 2) - 1) \<le> n div 2" "n div 2 < 2 ^ bit_length (n div 2)"
      using 1 by simp_all
    have pos: "0 < bit_length (n div 2)"
      using False by (simp add: bit_length.simps [of "n div 2"])
    have unfold: "bit_length n = Suc (bit_length (n div 2))"
      using 1(2) by (simp add: bit_length.simps [of n])
    have "2 * 2 ^ (bit_length (n div 2) - 1) \<le> n"
      using ih(1) by linarith
    moreover have "2 * 2 ^ (bit_length (n div 2) - 1) = (2::nat) ^ bit_length (n div 2)"
      using pos by (cases "bit_length (n div 2)") simp_all
    moreover have "n < 2 * 2 ^ bit_length (n div 2)"
      using ih(2) by linarith
    ultimately show ?thesis
      by (simp add: unfold)
  qed
qed

text \<open>From 1 on, \<open>binade q\<close> is the exponent of the power of two at or below \<open>q\<close>.\<close>

lemma binade_bounds:
  assumes "1 \<le> q"
  shows "\<exists>e. binade q = int e \<and> 2 ^ e \<le> q \<and> q < 2 ^ Suc e"
proof -
  let ?n = "nat \<lfloor>q\<rfloor>"
  have n: "0 < ?n" "of_nat ?n \<le> q" "q < of_nat ?n + 1"
    using assms by (simp_all add: of_nat_nat) linarith+
  have b: "2 ^ (bit_length ?n - 1) \<le> ?n" "?n < 2 ^ bit_length ?n"
    using bit_length_bounds [OF n(1)] by simp_all
  have pos: "0 < bit_length ?n"
    using n(1) by (simp add: bit_length.simps [of ?n])
  let ?e = "bit_length ?n - 1"
  have e: "binade q = int ?e"
    using assms pos by (simp add: binade_def)
  have "(2::rat) ^ ?e = of_nat (2 ^ ?e)"
    by simp
  also have "\<dots> \<le> of_nat ?n"
    using b(1) by (simp only: of_nat_le_iff)
  finally have lo: "2 ^ ?e \<le> q"
    using n(2) by linarith
  have "Suc ?n \<le> 2 ^ bit_length ?n"
    using b(2) by (rule Suc_leI)
  then have "(of_nat (Suc ?n) :: rat) \<le> of_nat (2 ^ bit_length ?n)"
    by (simp only: of_nat_le_iff)
  then have "of_nat ?n + 1 \<le> (2::rat) ^ bit_length ?n"
    by simp
  moreover have "bit_length ?n = Suc ?e"
    using pos by simp
  ultimately have hi: "q < 2 ^ Suc ?e"
    using n(3) by (simp del: power_Suc)
  show ?thesis
    using e lo hi by blast
qed

lemma binade_eq:
  assumes "2 ^ e \<le> q" and "q < 2 ^ Suc e"
  shows "binade q = int e"
proof -
  have "(1::rat) \<le> 2 ^ e"
    by simp
  then have "1 \<le> q"
    using assms(1) by linarith
  then obtain e' where e': "binade q = int e'" "2 ^ e' \<le> q" "q < 2 ^ Suc e'"
    using binade_bounds by blast
  have "(2::rat) ^ e < 2 ^ Suc e'"
    using assms(1) e'(3) by linarith
  then have "e < Suc e'"
    by (simp only: power_strict_increasing_iff [of "2::rat"])
  moreover have "(2::rat) ^ e' < 2 ^ Suc e"
    using assms(2) e'(2) by linarith
  then have "e' < Suc e"
    by (simp only: power_strict_increasing_iff [of "2::rat"])
  ultimately show ?thesis
    using e'(1) by simp
qed

lemma round_half_even_of_int: "round_half_even (of_int n) = n"
  by (simp add: round_half_even_def)

lemma round_half_even_ge: "of_int n \<le> x \<Longrightarrow> n \<le> round_half_even x"
proof -
  assume "of_int n \<le> x"
  then have "n \<le> \<lfloor>x\<rfloor>"
    by (simp add: le_floor_iff)
  then show ?thesis
    by (simp add: round_half_even_def Let_def)
qed

lemma round_half_even_less: "x < of_int n - 1 / 2 \<Longrightarrow> round_half_even x < n"
proof -
  assume a: "x < of_int n - 1 / 2"
  have fl: "of_int \<lfloor>x\<rfloor> \<le> x" "x < of_int \<lfloor>x\<rfloor> + 1"
    by linarith+
  have "\<lfloor>x\<rfloor> < n"
    using a fl(1) by (simp add: floor_less_iff)
  show ?thesis
  proof (cases "\<lfloor>x\<rfloor> = n - 1")
    case True
    then have "x - of_int \<lfloor>x\<rfloor> < 1 / 2"
      using a by simp
    then show ?thesis
      using True by (simp add: round_half_even_def Let_def)
  next
    case False
    then have "\<lfloor>x\<rfloor> + 1 < n"
      using \<open>\<lfloor>x\<rfloor> < n\<close> by simp
    then show ?thesis
      by (simp add: round_half_even_def Let_def)
  qed
qed

lemma ulp_nat: "e \<le> 52 \<Longrightarrow> (2::rat) powi (int e - 52) = 1 / 2 ^ (52 - e)"
  by (simp add: power_int_def nat_diff_distrib' field_simps)

text \<open>The double nearest to \<open>q\<close> in the binade of exponent \<open>e\<close>.\<close>

lemma round_double_binade:
  assumes "2 ^ e \<le> q" and "q < 2 ^ Suc e"
  shows "round_double q = of_int (round_half_even (q / 2 powi (int e - 52))) * 2 powi (int e - 52)"
proof -
  have "(0::rat) < 2 ^ e"
    by simp
  then have "0 < q"
    using assms(1) by linarith
  then show ?thesis
    using binade_eq [OF assms] by (simp add: round_double_def Let_def)
qed

lemma round_double_pos:
  assumes "1 \<le> q" and "q < 2 ^ 53"
  shows "\<exists>e. e \<le> 52 \<and> 2 ^ e \<le> q \<and> q < 2 ^ Suc e
            \<and> round_double q = of_int (round_half_even (q * 2 ^ (52 - e))) / 2 ^ (52 - e)"
proof -
  obtain e where e: "binade q = int e" "2 ^ e \<le> q" "q < 2 ^ Suc e"
    using binade_bounds [OF assms(1)] by blast
  have "(2::rat) ^ e < 2 ^ 53"
    using e(2) assms(2) by linarith
  then have "e < 53"
    by (simp only: power_strict_increasing_iff [of "2::rat"])
  then have le: "e \<le> 52"
    by simp
  have "round_double q = of_int (round_half_even (q / (1 / 2 ^ (52 - e)))) * (1 / 2 ^ (52 - e))"
    using round_double_binade [OF e(2,3)] by (simp only: ulp_nat [OF le])
  then have "round_double q = of_int (round_half_even (q * 2 ^ (52 - e))) / 2 ^ (52 - e)"
    by simp
  then show ?thesis
    using le e(2,3) by blast
qed

text \<open>An \<open>int\<close> below \<open>2^53\<close> is a double.\<close>

lemma round_double_of_int:
  assumes "0 \<le> n" and "n < 2 ^ 53"
  shows "round_double (of_int n) = of_int n"
proof (cases "n = 0")
  case True
  then show ?thesis
    by (simp add: round_double_def)
next
  case False
  then have "(1::rat) \<le> of_int n"
    using assms(1) by simp
  moreover have "(of_int n :: rat) < 2 ^ 53"
    using assms(2) by (simp only: of_int_less_numeral_power_cancel_iff)
  ultimately obtain e where
    "round_double (of_int n) = of_int (round_half_even (of_int n * 2 ^ (52 - e))) / 2 ^ (52 - e)"
    using round_double_pos by blast
  moreover have "(of_int n :: rat) * 2 ^ (52 - e) = of_int (n * 2 ^ (52 - e))"
    by simp
  ultimately have "round_double (of_int n) = of_int (n * 2 ^ (52 - e)) / 2 ^ (52 - e)"
    by (simp only: round_half_even_of_int)
  then show ?thesis
    by simp
qed

text \<open>
  The quotient of a double \<open>x\<close> below \<open>2^53\<close> by a whole number \<open>D \<le> x\<close>: rounding it to
  a double does not carry it to the next whole number.  With \<open>k\<close> the whole part of the exact
  quotient, \<open>x\<close> lies at least one step of its own grid below \<open>D * (k + 1)\<close>, which is more
  than half a step of the quotient's grid after the division by \<open>D\<close>.
\<close>

lemma floor_true_div:
  fixes D :: int
  assumes "0 < D" and "of_int D \<le> x" and "x < 2 ^ 53" and "round_double x = x"
  shows "\<lfloor>true_div x (of_int D)\<rfloor> = \<lfloor>x / of_int D\<rfloor>"
proof -
  let ?q = "x / of_int D"
  let ?k = "\<lfloor>?q\<rfloor>"
  have D1: "(1::rat) \<le> of_int D"
    using assms(1) by simp
  have x1: "1 \<le> x"
    using D1 assms(2) by linarith
  have q1: "1 \<le> ?q"
    using assms(1,2) by (simp add: le_divide_eq)
  have qx: "?q \<le> x"
  proof -
    have "x * 1 \<le> x * of_int D"
      using D1 x1 by (intro mult_left_mono) simp_all
    then show ?thesis
      using assms(1) by (simp add: divide_le_eq)
  qed
  have q53: "?q < 2 ^ 53"
    using qx assms(3) by linarith
  \<comment> \<open>the double \<open>x\<close> on its grid\<close>
  obtain s where s: "s \<le> 52" "x < 2 ^ Suc s"
      "round_double x = of_int (round_half_even (x * 2 ^ (52 - s))) / 2 ^ (52 - s)"
    using round_double_pos [OF x1 assms(3)] by blast
  define M where "M = round_half_even (x * 2 ^ (52 - s))"
  have xM: "x * 2 ^ (52 - s) = of_int M"
    using s(3) assms(4) by (simp add: M_def field_simps)
  \<comment> \<open>the quotient and its binade\<close>
  obtain e where e: "e \<le> 52" "2 ^ e \<le> ?q" "?q < 2 ^ Suc e"
      "round_double ?q = of_int (round_half_even (?q * 2 ^ (52 - e))) / 2 ^ (52 - e)"
    using round_double_pos [OF q1 q53] by blast
  let ?t = "52 - e"
  let ?R = "round_half_even (?q * 2 ^ ?t)"
  \<comment> \<open>the rounded quotient is not below \<open>k\<close>\<close>
  have "of_int ?k \<le> ?q"
    by simp
  then have "of_int ?k * 2 ^ ?t \<le> ?q * (2::rat) ^ ?t"
    by (intro mult_right_mono) simp_all
  then have "of_int (?k * 2 ^ ?t) \<le> ?q * (2::rat) ^ ?t"
    by (simp only: of_int_mult of_int_power of_int_numeral)
  then have "?k * 2 ^ ?t \<le> ?R"
    by (rule round_half_even_ge)
  then have "(of_int (?k * 2 ^ ?t) :: rat) \<le> of_int ?R"
    by (simp only: of_int_le_iff)
  then have lower: "of_int ?k \<le> round_double ?q"
    by (simp add: e(4) le_divide_eq)
  \<comment> \<open>the gap from \<open>x\<close> to the next multiple of \<open>D\<close>\<close>
  define g where "g = of_int (D * (?k + 1)) - x"
  have "?q < of_int (?k + 1)"
    by simp linarith
  then have gpos: "0 < g"
    using assms(1) by (simp add: g_def divide_less_eq mult.commute)
  have gM: "g * 2 ^ (52 - s) = of_int (D * (?k + 1) * 2 ^ (52 - s) - M)"
    by (simp add: g_def xM [symmetric] algebra_simps)
  moreover have "0 < g * (2::rat) ^ (52 - s)"
    using gpos by simp
  ultimately have "0 < D * (?k + 1) * 2 ^ (52 - s) - M"
    by (simp only: of_int_0_less_iff [symmetric, where 'a = rat])
  then have "(1::rat) \<le> of_int (D * (?k + 1) * 2 ^ (52 - s) - M)"
    by (simp only: of_int_1_le_iff)
  then have g1: "1 \<le> g * 2 ^ (52 - s)"
    using gM by simp
  \<comment> \<open>the divisor against the two grids\<close>
  have "of_int D * 2 ^ e \<le> x"
    using e(2) assms(1) by (simp add: le_divide_eq mult.commute)
  then have "of_int D * 2 ^ e * 2 ^ (52 - s) \<le> x * (2::rat) ^ (52 - s)"
    by (intro mult_right_mono) simp_all
  moreover have "x * 2 ^ (52 - s) < 2 ^ Suc s * (2::rat) ^ (52 - s)"
    using s(2) by (intro mult_strict_right_mono) simp_all
  moreover have "(2::rat) ^ Suc s * 2 ^ (52 - s) = 2 ^ 53"
    using s(1) by (simp add: power_add [symmetric] del: power_Suc)
  ultimately have Dbound: "of_int D * 2 ^ e * 2 ^ (52 - s) < (2::rat) ^ 53"
    by linarith
  have split53: "(2::rat) ^ 53 = 2 ^ e * (2 * 2 ^ ?t)"
    using e(1) by (simp add: power_add [symmetric] power_Suc [symmetric] del: power_Suc)
  have "of_int D * 2 ^ (52 - s) * (2::rat) ^ e < (2 * 2 ^ ?t) * 2 ^ e"
    using Dbound split53 by (simp add: mult.commute mult.left_commute)
  then have Dsmall: "of_int D * 2 ^ (52 - s) < 2 * (2::rat) ^ ?t"
    by (simp only: mult_less_cancel_right_pos [of "2 ^ e"] zero_less_power zero_less_numeral)
  \<comment> \<open>the rounded quotient is below \<open>k + 1\<close>\<close>
  have half: "1 / 2 < g / of_int D * 2 ^ ?t"
  proof -
    have "of_int D * 2 ^ (52 - s) < 2 * (2::rat) ^ ?t * (g * 2 ^ (52 - s))"
    proof -
      have "2 * (2::rat) ^ ?t * 1 \<le> 2 * 2 ^ ?t * (g * 2 ^ (52 - s))"
        using g1 by (intro mult_left_mono) simp_all
      then show ?thesis
        using Dsmall by linarith
    qed
    then have "of_int D * (2::rat) ^ (52 - s) < (2 * 2 ^ ?t * g) * 2 ^ (52 - s)"
      by (simp add: mult.commute mult.left_commute)
    then have "of_int D < 2 * (2::rat) ^ ?t * g"
      by (simp only: mult_less_cancel_right_pos [of "2 ^ (52 - s)"] zero_less_power zero_less_numeral)
    then show ?thesis
      using assms(1) by (simp add: field_simps)
  qed
  have "of_int (?k + 1) - ?q = g / of_int D"
    using assms(1) by (simp add: g_def field_simps)
  then have "?q * 2 ^ ?t = of_int (?k + 1) * 2 ^ ?t - g / of_int D * 2 ^ ?t"
    by (simp add: algebra_simps)
  then have "?q * 2 ^ ?t < of_int ((?k + 1) * 2 ^ ?t) - 1 / 2"
    using half by simp
  then have "?R < (?k + 1) * 2 ^ ?t"
    by (rule round_half_even_less)
  then have "(of_int ?R :: rat) < of_int ((?k + 1) * 2 ^ ?t)"
    by (simp only: of_int_less_iff)
  then have upper: "round_double ?q < of_int ?k + 1"
    by (simp add: e(4) divide_less_eq)
  show ?thesis
    unfolding true_div_def using lower upper by (simp add: floor_unique)
qed

lemma py_int_true_div:
  fixes D :: int
  assumes "0 < D" and "of_int D \<le> x" and "x < 2 ^ 53" and "round_double x = x"
  shows "py_int (true_div x (of_int D)) = \<lfloor>x / of_int D\<rfloor>"
proof -
  have "1 \<le> x / of_int D"
    using assms(1,2) by (simp add: le_divide_eq)
  then have "1 \<le> \<lfloor>x / of_int D\<rfloor>"
    by (simp add: le_floor_iff)
  then have "1 \<le> \<lfloor>true_div x (of_int D)\<rfloor>"
    using floor_true_div [OF assms] by simp
  then have "0 \<le> true_div x (of_int D)"
    by (simp add: le_floor_iff)
  then show ?thesis
    using floor_true_div [OF assms] by (simp add: py_int_def)
qed

lemma age_str_exact:
  assumes "0 \<le> a" and "a < 2 ^ 53" and "round_double a = a"
  shows "age_str a =
           (if a < 60 then str_nat (nat \<lfloor>a\<rfloor>) @ ''m''
            else if a < 1440 then str_nat (nat \<lfloor>a / 60\<rfloor>) @ ''h''
            else str_nat (nat \<lfloor>a / 1440\<rfloor>) @ ''d'')"
proof -
  have hours: "py_int (true_div a 60) = \<lfloor>a / 60\<rfloor>" if "60 \<le> a"
    using py_int_true_div [of 60 a] that assms(2,3) by simp
  have days: "py_int (true_div a 1440) = \<lfloor>a / 1440\<rfloor>" if "1440 \<le> a"
    using py_int_true_div [of 1440 a] that assms(2,3) by simp
  have nonneg: "0 \<le> \<lfloor>a\<rfloor>" "0 \<le> \<lfloor>a / 60\<rfloor>" "0 \<le> \<lfloor>a / 1440\<rfloor>"
    using assms(1) by simp_all
  have minutes: "py_int a = \<lfloor>a\<rfloor>"
    using assms(1) by (simp add: py_int_def)
  show ?thesis
  proof (cases "a < 60")
    case True
    then show ?thesis
      using nonneg(1) by (simp add: age_str_def minutes str_int_def)
  next
    case b1: False
    show ?thesis
    proof (cases "a < 1440")
      case True
      then show ?thesis
        using b1 nonneg(2) hours by (simp add: age_str_def str_int_def)
    next
      case False
      then show ?thesis
        using b1 nonneg(3) days by (simp add: age_str_def str_int_def)
    qed
  qed
qed

lemma age_str_int:
  assumes "0 \<le> n" and "n < 2 ^ 53"
  shows "age_str (of_int n) =
           (if n < 60 then str_nat (nat n) @ ''m''
            else if n < 1440 then str_nat (nat (n div 60)) @ ''h''
            else str_nat (nat (n div 1440)) @ ''d'')"
proof -
  have "(0::rat) \<le> of_int n"
    using assms(1) by simp
  moreover have "(of_int n :: rat) < 2 ^ 53"
    using assms(2) by (simp only: of_int_less_numeral_power_cancel_iff)
  moreover have "round_double (of_int n) = of_int n"
    using assms by (rule round_double_of_int)
  ultimately have "age_str (of_int n) =
           (if (of_int n :: rat) < 60 then str_nat (nat \<lfloor>(of_int n :: rat)\<rfloor>) @ ''m''
            else if (of_int n :: rat) < 1440 then str_nat (nat \<lfloor>(of_int n :: rat) / 60\<rfloor>) @ ''h''
            else str_nat (nat \<lfloor>(of_int n :: rat) / 1440\<rfloor>) @ ''d'')"
    by (rule age_str_exact)
  moreover have "\<lfloor>(of_int n :: rat) / 60\<rfloor> = n div 60" "\<lfloor>(of_int n :: rat) / 1440\<rfloor> = n div 1440"
    using floor_divide_of_int_eq [of n 60, where ?'a = rat]
      floor_divide_of_int_eq [of n 1440, where ?'a = rat] by simp_all
  ultimately show ?thesis
    by simp
qed

lemma str_nat_numeral:
  "str_nat (numeral k) =
     (if (numeral k :: nat) < 10 then [digit (numeral k)]
      else str_nat (numeral k div 10) @ [digit (numeral k mod 10)])"
  by (rule str_nat.simps)

lemma age_examples:
  "age_str 59 = ''59m''" "age_str 60 = ''1h''" "age_str 1439 = ''23h''" "age_str 1440 = ''1d''"
  using age_str_int [of 59] age_str_int [of 60] age_str_int [of 1439] age_str_int [of 1440]
  by (simp_all add: str_nat_numeral str_nat.simps [of "Suc 0"] digit_def)

text \<open>89.5 is a double; the quotient of 143999999999999999999 by 1440 lies between \<open>2^56\<close>
  and \<open>2^57\<close>, where the doubles are the multiples of 16, and the nearest one is \<open>10^17\<close>.\<close>

lemma half_minute_is_double: "round_double (179 / 2) = 179 / 2"
proof -
  have "round_double (179 / 2) =
        of_int (round_half_even (179 / 2 / 2 powi (int 6 - 52))) * 2 powi (int 6 - 52)"
    by (rule round_double_binade) simp_all
  moreover have "(2::rat) powi (int 6 - 52) = 1 / 2 ^ 46"
    by (simp add: power_int_def field_simps)
  moreover have "(179::rat) / 2 / (1 / 2 ^ 46) = of_int (179 * 2 ^ 45)"
    by simp
  ultimately show ?thesis
    by (simp only: round_half_even_of_int) simp
qed

lemma true_div_rounds_up: "true_div 143999999999999999999 1440 = 100000000000000000"
proof -
  have "round_double (143999999999999999999 / 1440) =
        of_int (round_half_even (143999999999999999999 / 1440 / 2 powi (int 56 - 52))) *
        2 powi (int 56 - 52)"
    by (rule round_double_binade) simp_all
  moreover have "(2::rat) powi (int 56 - 52) = 16"
    by (simp add: power_int_def)
  moreover have "\<lfloor>(143999999999999999999::rat) / 23040\<rfloor> = 6249999999999999"
    by (rule floor_unique) simp_all
  then have "round_half_even (143999999999999999999 / 1440 / 16) = 6250000000000000"
    by (simp add: round_half_even_def Let_def)
  ultimately show ?thesis
    by (simp add: true_div_def)
qed

lemma age_str_rounds_up: "age_str 143999999999999999999 = ''100000000000000000d''"
  by (simp add: age_str_def true_div_rounds_up py_int_def str_int_def str_nat_numeral
      str_nat.simps [of "Suc 0"] digit_def)

lemma exact_days: "\<lfloor>(143999999999999999999::rat) / 1440\<rfloor> = 99999999999999999"
  by (rule floor_unique) simp_all

section \<open>The example requests evaluated\<close>

lemma example_table:
  "service_prompts example_cfg =
     [''radarr'' \<mapsto> [''hd-1080p'' \<mapsto> ''Prefer small files.''], ''sonarr'' \<mapsto> Map.empty]"
  by (simp add: example_cfg_def example_dir_def load_service_prompts_def load_system_prompt_def
      get_or_def ascii_python_def ascii_strip_def ascii_isspace_def ascii_lower_def ascii_lower_char_def Let_def fun_upd_twist)

lemma example_prompt:
  "get_system_prompt_for_profile ascii_python example_cfg ''radarr'' ''HD-1080p'' = Some ''Prefer small files.''"
  by (simp add: get_system_prompt_for_profile_def example_table
      get_or_def ascii_python_def ascii_strip_def ascii_isspace_def ascii_lower_def ascii_lower_char_def Let_def)

lemma example_no_sonarr_prompt:
  "get_system_prompt_for_profile ascii_python example_cfg ''sonarr'' pn = None"
  by (simp add: get_system_prompt_for_profile_def example_table
      get_or_def ascii_python_def ascii_strip_def ascii_isspace_def ascii_lower_def ascii_lower_char_def Let_def)

lemma example_profile: "request_profile example_api (example_payload rels) = ''HD-1080p''"
  by (simp add: request_profile_def request_id_def example_payload_def example_api_def
      get_quality_profile_name_def get_or_def)

lemma example_title: "request_title (example_payload rels) = ''Film''"
  by (simp add: request_title_def example_payload_def get_or_def)

lemma example_not_skipped: "\<not> skip_tagged ascii_python example_cfg example_api (example_payload rels)"
  by (simp add: skip_tagged_def request_id_def example_payload_def example_api_def example_cfg_def
      get_tags_def get_or_def List.map_filter_simps ascii_python_def ascii_lower_def ascii_lower_char_def)

lemma example_configured: "app_config app example_cfg \<noteq> None"
  by (cases app) (simp_all add: example_cfg_def)

lemma example_event:
  "eventType (example_payload rels) = Some ''DownloadDecisionOverride''"
  "releases (example_payload rels) = Some rels"
  by (simp_all add: example_payload_def)

lemma example_failing:
  "fst (ask_ai_for_selection ascii_python example_cfg (failing msg) rels ''Film'' ''HD-1080p'' ''radarr'') =
     (None, PyStr msg)"
  by (simp add: ask_ai_prompt [OF example_prompt] read_answer_def failing_def)

lemma example_answering:
  "fst (ask_ai_for_selection ascii_python example_cfg (answering (Loaded_dict parsed)) rels
          ''Film'' ''HD-1080p'' ''radarr'') =
     read_answer ascii_python (answering (Loaded_dict parsed)) (Inr ''{}'')"
  by (simp add: ask_ai_prompt [OF example_prompt] answering_def)

lemma example_read:
  "read_answer ascii_python (answering (Loaded_dict parsed)) (Inr ''{}'') =
     (case get_or (parsed ''choice'') PyNone of
        PyInt n \<Rightarrow> (Some n, get_or (parsed ''reason'') (PyStr ''No reason provided''))
      | PyBool b \<Rightarrow> (Some (if b then 1 else 0),
                      get_or (parsed ''reason'') (PyStr ''No reason provided''))
      | v \<Rightarrow> (None, PyStr (''Invalid choice type: <class '' @ quote @ py_type v @ quote @ ''>'')))"
  by (simp add: read_answer_def answering_def ascii_python_def ascii_strip_def ascii_isspace_def strip_fence_def
      startswith_def fence_def Let_def split: pyval.splits)

lemma example_choice:
  "fst (ask_ai_for_selection ascii_python example_cfg
          (answering (Loaded_dict [''choice'' \<mapsto> PyInt n, ''reason'' \<mapsto> PyStr s])) rels
          ''Film'' ''HD-1080p'' ''radarr'') = (Some n, PyStr s)"
  by (simp add: example_answering example_read get_or_def)

lemma example_asks:
  "rels \<noteq> [] \<Longrightarrow>
   webhook_override ascii_python Radarr example_cfg example_api llm (Some (example_payload rels)) =
     (fst (decide Radarr example_cfg rels ''Film'' ''HD-1080p''
             (fst (fst (ask_ai_for_selection ascii_python example_cfg llm rels ''Film'' ''HD-1080p'' ''radarr'')))
             (snd (fst (ask_ai_for_selection ascii_python example_cfg llm rels ''Film'' ''HD-1080p'' ''radarr'')))),
      snd (ask_ai_for_selection ascii_python example_cfg llm rels ''Film'' ''HD-1080p'' ''radarr'') @
      snd (decide Radarr example_cfg rels ''Film'' ''HD-1080p''
             (fst (fst (ask_ai_for_selection ascii_python example_cfg llm rels ''Film'' ''HD-1080p'' ''radarr'')))
             (snd (fst (ask_ai_for_selection ascii_python example_cfg llm rels ''Film'' ''HD-1080p'' ''radarr'')))))"
  using webhook_override_asks [OF example_configured example_event(1) example_event(2) _
      example_not_skipped, of rels Radarr llm]
  by (simp add: example_title example_profile)

lemma example_flags:
  "isSelected release_a = Some True" "isSelected release_b = None" "isSelected release_c = Some True"
  "guid release_a = Some ''a''" "guid release_b = Some ''b''" "guid release_c = Some ''c''"
  "title release_b = Some ''Film.2019.2160p.WEB''"
  by (simp_all add: release_a_def release_b_def release_c_def no_keys_def)

lemma example_dry_run: "dry_run example_cfg = False"
  by (simp add: example_cfg_def)

lemma example_override:
  "fst (webhook_override ascii_python Radarr example_cfg example_api
          (answering (Loaded_dict [''choice'' \<mapsto> PyInt 2, ''reason'' \<mapsto> PyStr ''better seeders'']))
          (Some (example_payload [release_a, release_b]))) =
     (\<lparr>approved = True, selectedReleaseGuid = Some (Some ''b''),
       reason = PyStr ''better seeders''\<rparr>, 200)"
  by (simp add: example_asks example_choice decide_def get_or_def Let_def example_flags
      example_dry_run)

text \<open>The request of the specification's example: the model chooses the second of two releases
  and the first is the default; the prompt shows the second release's size as \<open>10.00\<close>.\<close>

lemma example_size: "fmt_2f 10737418240 = ''10.00''"
proof -
  have "round_double 10 = 10"
    using round_double_of_int [of 10] by simp
  then have "cents 10737418240 = 1000"
    using round_half_even_of_int [of 1000] by (simp add: cents_def true_div_def)
  then show ?thesis
    by (simp add: fmt_2f_def str_nat.simps [of 10] str_nat.simps [of 1]
        str_nat.simps [of "Suc 0"] digit_def)
qed

text \<open>\<open>isinstance(choice, int)\<close> holds of \<open>True\<close>: a boolean choice is taken as the index 1.\<close>

lemma boolean_choice_is_index_one:
  "fst (webhook_radarr_override ascii_python example_cfg example_api
          (answering (Loaded_dict [''choice'' \<mapsto> PyBool True, ''reason'' \<mapsto> PyStr ''yes'']))
          (Some (example_payload [release_b, release_a]))) =
     (\<lparr>approved = True, selectedReleaseGuid = Some (Some ''b''), reason = PyStr ''yes''\<rparr>, 200)"
  by (simp add: webhook_radarr_override_def example_asks example_answering example_read
      decide_def get_or_def Let_def example_flags example_dry_run)

lemma strip_lower_examples:
  "strip ascii_python (lower ascii_python ''Radarr'') = ''radarr''"
  "strip ascii_python (lower ascii_python '' hd-1080P '') = ''hd-1080p''"
  "lower ascii_python ''HD-1080p'' = ''hd-1080p''"
  "strip ascii_python ''Prefer small files. '' \<noteq> []"
  by (simp_all add: ascii_python_def ascii_strip_def ascii_isspace_def ascii_lower_def ascii_lower_char_def)

section \<open>The selected guid\<close>

text \<open>
  Claim C1.  When the answer of a webhook request carries \<open>selectedReleaseGuid\<close>, its value is
  the guid of the release at the model's 1-based index \<open>c\<close> in the list as it arrived:
  \<open>c\<close> is in range and the guid is that of \<open>rels ! (c - 1)\<close>.  For the same request with the
  releases reordered (\<open>rels'\<close>, the same multiset) and the index adjusted to \<open>c'\<close> so that it
  names the same release, the answer never carries another guid: it carries the same one or
  none.  It carries the same one whenever no release flagged \<open>isSelected\<close> has the chosen
  release's guid; with several flagged releases the first in the new order is the default, and
  choosing it is answered with "AI confirms default" and no guid.
\<close>

theorem selected_guid_is_chosen_release:
  assumes "selectedReleaseGuid (fst (fst (webhook_override py app cfg api llm (Some p)))) = Some g"
    and "releases p = Some rels"
    and "fst (ask_ai_for_selection py cfg llm rels (request_title p) (request_profile api p)
                (app_service app)) = (Some c, r)"
    and "mset rels' = mset rels"
    and "1 \<le> c'" and "c' \<le> int (length rels')"
    and "chosen rels' c' = chosen rels c"
    and "fst (ask_ai_for_selection py cfg llm' rels' (request_title p) (request_profile api p)
                (app_service app)) = (Some c', r')"
  shows "1 \<le> c \<and> c \<le> int (length rels) \<and> g = guid (rels ! nat (c - 1))
       \<and> (selectedReleaseGuid
             (fst (fst (webhook_override py app cfg api llm' (Some (p\<lparr>releases := Some rels'\<rparr>)))))
             = Some g
          \<or> selectedReleaseGuid
             (fst (fst (webhook_override py app cfg api llm' (Some (p\<lparr>releases := Some rels'\<rparr>)))))
             = None)
       \<and> (guid (chosen rels c) \<notin> set (map guid (filter (\<lambda>x. isSelected x = Some True) rels)) \<longrightarrow>
           selectedReleaseGuid
             (fst (fst (webhook_override py app cfg api llm' (Some (p\<lparr>releases := Some rels'\<rparr>)))))
             = Some g)"
proof -
  obtain p0 rels0 c0 r0 where "Some p = Some p0" "releases p0 = Some rels0"
      and stage: "app_config app cfg \<noteq> None" "eventType p0 = Some ''DownloadDecisionOverride''"
        "rels0 \<noteq> []" "\<not> skip_tagged py cfg api p0"
      and asked0: "fst (ask_ai_for_selection py cfg llm rels0 (request_title p0)
                     (request_profile api p0) (app_service app)) = (Some c0, r0)"
      and sel: "1 \<le> c0" "c0 \<le> int (length rels0)" "g = guid (chosen rels0 c0)"
        "\<not> dry_run cfg"
    using selected_guid_branch [OF assms(1)] by blast
  then have same: "p0 = p" "rels0 = rels" "c0 = c"
    using assms(2,3) by simp_all
  let ?p' = "p\<lparr>releases := Some rels'\<rparr>"
  let ?sel' = "selectedReleaseGuid (fst (fst (webhook_override py app cfg api llm' (Some ?p'))))"
  have titles: "request_title ?p' = request_title p" "request_profile api ?p' = request_profile api p"
    by (simp_all add: request_title_def request_profile_def request_id_def)
  have stage': "eventType ?p' = Some ''DownloadDecisionOverride''" "releases ?p' = Some rels'"
    "rels' \<noteq> []" "\<not> skip_tagged py cfg api ?p'"
    using stage same assms(4) by (auto simp add: skip_tagged_def request_id_def)
  have index: "1 \<le> c \<and> c \<le> int (length rels) \<and> g = guid (rels ! nat (c - 1))"
    using sel same by (simp add: chosen_def)
  have never_other: "?sel' = Some g \<or> ?sel' = None"
  proof (cases ?sel')
    case None
    then show ?thesis by simp
  next
    case (Some g')
    then obtain p1 rels1 c1 r1 where "Some ?p' = Some p1" "releases p1 = Some rels1"
        and asked1: "fst (ask_ai_for_selection py cfg llm' rels1 (request_title p1)
                     (request_profile api p1) (app_service app)) = (Some c1, r1)"
        and g': "g' = guid (chosen rels1 c1)"
      using selected_guid_branch [of py app cfg api llm' "Some ?p'" g'] by blast
    then have "rels1 = rels'" "p1 = ?p'"
      by auto
    then have "c1 = c'"
      using asked1 assms(8) by (simp add: titles)
    then have "g' = g"
      using g' \<open>rels1 = rels'\<close> assms(7) sel(3) same by simp
    then show ?thesis
      using Some by simp
  qed
  have stable: "?sel' = Some g"
    if other: "guid (chosen rels c) \<notin> set (map guid (filter (\<lambda>x. isSelected x = Some True) rels))"
  proof -
    have "set rels' = set rels"
      using assms(4) by (rule mset_eq_setD)
    have "map_option guid (find (\<lambda>x. isSelected x = Some True) rels')
               \<noteq> Some (guid (chosen rels' c'))"
    proof
      assume "map_option guid (find (\<lambda>x. isSelected x = Some True) rels')
              = Some (guid (chosen rels' c'))"
      then obtain d where d: "find (\<lambda>x. isSelected x = Some True) rels' = Some d"
          "guid d = guid (chosen rels' c')"
        by auto
      then have "d \<in> set rels" "isSelected d = Some True"
        using find_SomeD [OF d(1)] \<open>set rels' = set rels\<close> by simp_all
      then have "guid d \<in> set (map guid (filter (\<lambda>x. isSelected x = Some True) rels))"
        by simp
      then show False
        using d(2) assms(7) other by simp
    qed
    then have "decide app cfg rels' (request_title p) (request_profile api p) (Some c') r' =
               ((\<lparr>approved = True, selectedReleaseGuid = Some (guid (chosen rels' c')),
                  reason = r'\<rparr>, 200),
                [Notification (''AI Override: '' @ request_title p)
                  (''Profile: '' @ request_profile api p @ nl @
                   ''Release: '' @ get_or (title (chosen rels' c')) ''Unknown'' @ nl @
                   ''Size: '' @ str_round2 (get_or (size_bytes (chosen rels' c')) 0) @ '' GB'' @ nl @
                   ''Reason: '' @ py_str r')
                  ''default'' (override_tags app)])"
      using assms(5,6) sel(4) by (simp add: decide_overrides)
    then have "?sel' = Some (guid (chosen rels' c'))"
      using stage(1) stage' assms(8) by (simp add: webhook_override_asks titles)
    then show ?thesis
      using sel same assms(7) by simp
  qed
  show ?thesis
    using index never_other stable by blast
qed

theorem selected_guid_is_chosen_release_witness:
  "selectedReleaseGuid
     (fst (fst (webhook_override ascii_python Radarr example_cfg example_api
        (answering (Loaded_dict [''choice'' \<mapsto> PyInt 2, ''reason'' \<mapsto> PyStr ''better seeders'']))
        (Some (example_payload [release_a, release_b]))))) = Some (Some ''b'')
   \<and> mset [release_b, release_a] = mset [release_a, release_b]
   \<and> chosen [release_b, release_a] 1 = chosen [release_a, release_b] 2
   \<and> guid (chosen [release_a, release_b] 2)
       \<notin> set (map guid (filter (\<lambda>x. isSelected x = Some True) [release_a, release_b]))
   \<and> Some ''b'' = guid ([release_a, release_b] ! nat (2 - 1))
   \<and> selectedReleaseGuid
     (fst (fst (webhook_override ascii_python Radarr example_cfg example_api
        (answering (Loaded_dict [''choice'' \<mapsto> PyInt 1, ''reason'' \<mapsto> PyStr ''better seeders'']))
        (Some (example_payload [release_b, release_a]))))) = Some (Some ''b'')"
proof -
  let ?llm = "\<lambda>n. answering (Loaded_dict [''choice'' \<mapsto> PyInt n, ''reason'' \<mapsto> PyStr ''better seeders''])"
  have sel: "selectedReleaseGuid
     (fst (fst (webhook_override ascii_python Radarr example_cfg example_api (?llm 2)
        (Some (example_payload [release_a, release_b]))))) = Some (Some ''b'')"
    by (simp add: example_override)
  have asked: "fst (ask_ai_for_selection ascii_python example_cfg (?llm n) rels
                 (request_title (example_payload [release_a, release_b]))
                 (request_profile example_api (example_payload [release_a, release_b]))
                 (app_service Radarr)) = (Some n, PyStr ''better seeders'')" for n rels
    by (simp add: example_title example_profile example_choice)
  have perm: "mset [release_b, release_a] = mset [release_a, release_b]"
    by simp
  have same: "chosen [release_b, release_a] 1 = chosen [release_a, release_b] 2"
    by (simp add: chosen_def)
  have other: "guid (chosen [release_a, release_b] 2)
       \<notin> set (map guid (filter (\<lambda>x. isSelected x = Some True) [release_a, release_b]))"
    by (simp add: chosen_def example_flags)
  have reordered: "(example_payload [release_a, release_b])\<lparr>releases := Some [release_b, release_a]\<rparr>
      = example_payload [release_b, release_a]"
    by (simp add: example_payload_def)
  show ?thesis
    using selected_guid_is_chosen_release [OF sel example_event(2) asked perm _ _ same asked]
      sel perm same other
    by (simp add: reordered)
qed

text \<open>Two flagged releases: choosing the second is an override, and after the two are
  swapped the same choice confirms the default.\<close>

theorem two_flagged_releases_reordered:
  "mset [release_c, release_a] = mset [release_a, release_c]
   \<and> chosen [release_c, release_a] 1 = chosen [release_a, release_c] 2
   \<and> fst (webhook_radarr_override ascii_python example_cfg example_api
        (answering (Loaded_dict [''choice'' \<mapsto> PyInt 2, ''reason'' \<mapsto> PyStr ''smaller'']))
        (Some (example_payload [release_a, release_c]))) =
       (\<lparr>approved = True, selectedReleaseGuid = Some (Some ''c''), reason = PyStr ''smaller''\<rparr>, 200)
   \<and> fst (webhook_radarr_override ascii_python example_cfg example_api
        (answering (Loaded_dict [''choice'' \<mapsto> PyInt 1, ''reason'' \<mapsto> PyStr ''smaller'']))
        (Some (example_payload [release_c, release_a]))) =
       (\<lparr>approved = True, selectedReleaseGuid = None,
         reason = PyStr ''AI confirms default: smaller''\<rparr>, 200)"
  by (simp add: webhook_radarr_override_def example_asks example_choice decide_def get_or_def
      Let_def example_flags example_dry_run chosen_def)

section \<open>Every answer approves\<close>

text \<open>
  Claim C2.  Whatever the configuration, the media manager's API, the model and the request
  body are, the answer of \<open>webhook_override\<close>, and so of \<open>webhook_radarr_override\<close> and of
  \<open>webhook_sonarr_override\<close>, has \<open>approved = True\<close> and the HTTP status 200: no branch
  (not configured, empty payload, ignored event, no releases, skip tag, no prompt, model
  failure, out-of-range choice, confirmed default, dry run, override) answers
  \<open>approved = False\<close>.
\<close>

theorem always_approved:
  "approved (fst (fst (webhook_override py app cfg api llm request_json))) = True
   \<and> snd (fst (webhook_override py app cfg api llm request_json)) = 200
   \<and> approved (fst (fst (webhook_radarr_override py cfg api llm request_json))) = True
   \<and> approved (fst (fst (webhook_sonarr_override py cfg api llm request_json))) = True"
  by (simp add: webhook_radarr_override_def webhook_sonarr_override_def webhook_override_def
      Let_def decide_approved decide_status split: option.split)

section \<open>Model failure\<close>

text \<open>
  What the model client returns for each kind of failure, with a prompt configured.  A request
  that raises and an answer that \<open>json.loads\<close> refuses end in an \<open>except\<close> clause
  (\<open>on_exception\<close>): the detail is "Invalid JSON response: " and the message for a
  JSONDecodeError, and the message alone for any other exception.  An answer that is JSON but
  no object raises AttributeError at \<open>parsed.get\<close>.  A choice that is neither an \<open>int\<close>
  nor a \<open>bool\<close> is refused with the name of its type.
\<close>

lemma transport_error_returned:
  assumes "get_system_prompt_for_profile py cfg service pn = Some sp"
    and "chat_completions llm sp
           (USER_PROMPT_TEMPLATE t pn (format_releases_for_ai rels t)) = Inl e"
  shows "fst (ask_ai_for_selection py cfg llm rels t pn service) = on_exception e"
  using assms by (simp add: ask_ai_prompt read_answer_def)

lemma unparseable_answer_returned:
  assumes "get_system_prompt_for_profile py cfg service pn = Some sp"
    and "chat_completions llm sp
           (USER_PROMPT_TEMPLATE t pn (format_releases_for_ai rels t)) = Inr body"
    and "json_loads llm (strip_fence (strip py body)) = Inl e"
  shows "fst (ask_ai_for_selection py cfg llm rels t pn service) = on_exception e"
  using assms by (simp add: ask_ai_prompt read_answer_def)

lemma not_an_object_returned:
  assumes "get_system_prompt_for_profile py cfg service pn = Some sp"
    and "chat_completions llm sp
           (USER_PROMPT_TEMPLATE t pn (format_releases_for_ai rels t)) = Inr body"
    and "json_loads llm (strip_fence (strip py body)) = Inr (Loaded_other ty)"
  shows "fst (ask_ai_for_selection py cfg llm rels t pn service) =
           (None, PyStr (quote @ ty @ quote @ '' object has no attribute '' @
                         quote @ ''get'' @ quote))"
  using assms by (simp add: ask_ai_prompt read_answer_def)

lemma non_integer_choice_returned:
  assumes "get_system_prompt_for_profile py cfg service pn = Some sp"
    and "chat_completions llm sp
           (USER_PROMPT_TEMPLATE t pn (format_releases_for_ai rels t)) = Inr body"
    and "json_loads llm (strip_fence (strip py body)) = Inr (Loaded_dict parsed)"
    and "get_or (parsed ''choice'') PyNone = v"
    and "\<forall>n. v \<noteq> PyInt n" and "\<forall>b. v \<noteq> PyBool b"
  shows "fst (ask_ai_for_selection py cfg llm rels t pn service) =
           (None, PyStr (''Invalid choice type: <class '' @ quote @ py_type v @ quote @ ''>''))"
  using assms by (cases v) (auto simp add: ask_ai_prompt read_answer_def)

lemma integer_choice_returned:
  assumes "get_system_prompt_for_profile py cfg service pn = Some sp"
    and "chat_completions llm sp
           (USER_PROMPT_TEMPLATE t pn (format_releases_for_ai rels t)) = Inr body"
    and "json_loads llm (strip_fence (strip py body)) = Inr (Loaded_dict parsed)"
    and "parsed ''choice'' = Some (PyInt n)"
  shows "fst (ask_ai_for_selection py cfg llm rels t pn service) =
           (Some n, get_or (parsed ''reason'') (PyStr ''No reason provided''))"
  using assms by (simp add: ask_ai_prompt read_answer_def get_or_def)

text \<open>
  The answer to a request that reached the model client, from what the client returned: no
  choice with a detail \<open>r\<close> that does not contain the text "AI bypassed", or a choice below 1
  or above the number of releases, is answered "AI failed: r, using default" with the failure
  notification as the one notification.
\<close>

lemma failure_answer:
  assumes "app_config app cfg \<noteq> None"
    and "eventType p = Some ''DownloadDecisionOverride''"
    and "releases p = Some rels"
    and "rels \<noteq> []"
    and "\<not> skip_tagged py cfg api p"
    and "fst (ask_ai_for_selection py cfg llm rels (request_title p) (request_profile api p)
                (app_service app)) = (ch, r)"
    and "(ch = None \<and> \<not> reason_contains ''AI bypassed'' r)
         \<or> (\<exists>c. ch = Some c \<and> (c < 1 \<or> int (length rels) < c))"
  shows "fst (webhook_override py app cfg api llm (Some p)) =
           (\<lparr>approved = True, selectedReleaseGuid = None,
             reason = PyStr (''AI failed: '' @ py_str r @ '', using default'')\<rparr>, 200)"
    and "filter is_notification (snd (webhook_override py app cfg api llm (Some p))) =
           [Notification (''AI Warning: '' @ request_title p)
              (''Selection failed: '' @ py_str r @ nl @ ''Using '' @ app_name app @ '' default'')
              ''low'' [''warning'']]"
  using assms by (simp_all add: webhook_override_asks decide_failed ask_ai_no_notification)

text \<open>
  The kinds of failure and the out-of-range choice, from the request on.  The model's request
  raises, or its answer is no JSON, or is JSON but no object, or the choice of its answer is
  neither an \<open>int\<close> nor a \<open>bool\<close>; \<open>d\<close> is the detail the client returns for it.  When
  \<open>d\<close> does not contain "AI bypassed", the answer is "AI failed: d, using default" and the
  failure notification is sent.  An integer choice below 1 or above the number of releases is
  answered so with the model's own reason as the detail.
\<close>

lemma model_failure_defers:
  assumes "app_config app cfg \<noteq> None"
    and "eventType p = Some ''DownloadDecisionOverride''"
    and "releases p = Some rels"
    and "rels \<noteq> []"
    and "\<not> skip_tagged py cfg api p"
    and "get_system_prompt_for_profile py cfg (app_service app) (request_profile api p) = Some sp"
    and "chat_completions llm sp
           (USER_PROMPT_TEMPLATE (request_title p) (request_profile api p)
              (format_releases_for_ai rels (request_title p))) = response"
    and "(\<exists>e. response = Inl e \<and> on_exception e = (None, PyStr d))
         \<or> (\<exists>body e. response = Inr body
               \<and> json_loads llm (strip_fence (strip py body)) = Inl e
               \<and> on_exception e = (None, PyStr d))
         \<or> (\<exists>body ty. response = Inr body
               \<and> json_loads llm (strip_fence (strip py body)) = Inr (Loaded_other ty)
               \<and> d = quote @ ty @ quote @ '' object has no attribute '' @ quote @ ''get'' @ quote)
         \<or> (\<exists>body parsed v. response = Inr body
               \<and> json_loads llm (strip_fence (strip py body)) = Inr (Loaded_dict parsed)
               \<and> get_or (parsed ''choice'') PyNone = v
               \<and> (\<forall>n. v \<noteq> PyInt n) \<and> (\<forall>b. v \<noteq> PyBool b)
               \<and> d = ''Invalid choice type: <class '' @ quote @ py_type v @ quote @ ''>'')"
    and "\<not> contains ''AI bypassed'' d"
  shows "fst (webhook_override py app cfg api llm (Some p)) =
           (\<lparr>approved = True, selectedReleaseGuid = None,
             reason = PyStr (''AI failed: '' @ d @ '', using default'')\<rparr>, 200)"
    and "filter is_notification (snd (webhook_override py app cfg api llm (Some p))) =
           [Notification (''AI Warning: '' @ request_title p)
              (''Selection failed: '' @ d @ nl @ ''Using '' @ app_name app @ '' default'')
              ''low'' [''warning'']]"
proof -
  have "fst (ask_ai_for_selection py cfg llm rels (request_title p) (request_profile api p)
               (app_service app)) = (None, PyStr d)"
    using assms(8)
  proof (elim disjE exE conjE)
    fix e
    assume "response = Inl e" and "on_exception e = (None, PyStr d)"
    then show ?thesis
      using assms(6,7) transport_error_returned [of py cfg "app_service app"
          "request_profile api p" sp llm "request_title p" rels e]
      by simp
  next
    fix body e
    assume "response = Inr body"
      and "json_loads llm (strip_fence (strip py body)) = Inl e"
      and "on_exception e = (None, PyStr d)"
    then show ?thesis
      using assms(6,7) unparseable_answer_returned [of py cfg "app_service app"
          "request_profile api p" sp llm "request_title p" rels body e]
      by simp
  next
    fix body ty
    assume "response = Inr body"
      and "json_loads llm (strip_fence (strip py body)) = Inr (Loaded_other ty)"
      and "d = quote @ ty @ quote @ '' object has no attribute '' @ quote @ ''get'' @ quote"
    then show ?thesis
      using assms(6,7) not_an_object_returned [of py cfg "app_service app"
          "request_profile api p" sp llm "request_title p" rels body ty]
      by simp
  next
    fix body parsed v
    assume "response = Inr body"
      and "json_loads llm (strip_fence (strip py body)) = Inr (Loaded_dict parsed)"
      and "get_or (parsed ''choice'') PyNone = v"
      and "\<forall>n. v \<noteq> PyInt n" and "\<forall>b. v \<noteq> PyBool b"
      and "d = ''Invalid choice type: <class '' @ quote @ py_type v @ quote @ ''>''"
    then show ?thesis
      using assms(6,7) non_integer_choice_returned [of py cfg "app_service app"
          "request_profile api p" sp llm "request_title p" rels body parsed v]
      by simp
  qed
  moreover have "\<not> reason_contains ''AI bypassed'' (PyStr d)"
    using assms(9) by simp
  ultimately have failed: "fst (ask_ai_for_selection py cfg llm rels (request_title p)
        (request_profile api p) (app_service app)) = (None, PyStr d)"
      "(None = (None :: int option) \<and> \<not> reason_contains ''AI bypassed'' (PyStr d))
         \<or> (\<exists>c. None = Some c \<and> (c < 1 \<or> int (length rels) < c))"
    by simp_all
  show "fst (webhook_override py app cfg api llm (Some p)) =
           (\<lparr>approved = True, selectedReleaseGuid = None,
             reason = PyStr (''AI failed: '' @ d @ '', using default'')\<rparr>, 200)"
    using failure_answer(1) [OF assms(1-5) failed] by simp
  show "filter is_notification (snd (webhook_override py app cfg api llm (Some p))) =
           [Notification (''AI Warning: '' @ request_title p)
              (''Selection failed: '' @ d @ nl @ ''Using '' @ app_name app @ '' default'')
              ''low'' [''warning'']]"
    using failure_answer(2) [OF assms(1-5) failed] by simp
qed

lemma out_of_range_choice_defers:
  assumes "app_config app cfg \<noteq> None"
    and "eventType p = Some ''DownloadDecisionOverride''"
    and "releases p = Some rels"
    and "rels \<noteq> []"
    and "\<not> skip_tagged py cfg api p"
    and "get_system_prompt_for_profile py cfg (app_service app) (request_profile api p) = Some sp"
    and "chat_completions llm sp
           (USER_PROMPT_TEMPLATE (request_title p) (request_profile api p)
              (format_releases_for_ai rels (request_title p))) = Inr body"
    and "json_loads llm (strip_fence (strip py body)) = Inr (Loaded_dict parsed)"
    and "parsed ''choice'' = Some (PyInt c)"
    and "c < 1 \<or> int (length rels) < c"
  shows "fst (webhook_override py app cfg api llm (Some p)) =
           (\<lparr>approved = True, selectedReleaseGuid = None,
             reason = PyStr (''AI failed: '' @
                        py_str (get_or (parsed ''reason'') (PyStr ''No reason provided'')) @
                        '', using default'')\<rparr>, 200)"
    and "filter is_notification (snd (webhook_override py app cfg api llm (Some p))) =
           [Notification (''AI Warning: '' @ request_title p)
              (''Selection failed: '' @
                 py_str (get_or (parsed ''reason'') (PyStr ''No reason provided'')) @ nl @
                 ''Using '' @ app_name app @ '' default'')
              ''low'' [''warning'']]"
proof -
  let ?r = "get_or (parsed ''reason'') (PyStr ''No reason provided'')"
  have asked: "fst (ask_ai_for_selection py cfg llm rels (request_title p) (request_profile api p)
               (app_service app)) = (Some c, ?r)"
    using assms(6-9) by (rule integer_choice_returned)
  have out: "(Some c = None \<and> \<not> reason_contains ''AI bypassed'' ?r)
         \<or> (\<exists>c'. Some c = Some c' \<and> (c' < 1 \<or> int (length rels) < c'))"
    using assms(10) by simp
  show "fst (webhook_override py app cfg api llm (Some p)) =
           (\<lparr>approved = True, selectedReleaseGuid = None,
             reason = PyStr (''AI failed: '' @ py_str ?r @ '', using default'')\<rparr>, 200)"
    using failure_answer(1) [OF assms(1-5) asked out] .
  show "filter is_notification (snd (webhook_override py app cfg api llm (Some p))) =
           [Notification (''AI Warning: '' @ request_title p)
              (''Selection failed: '' @ py_str ?r @ nl @ ''Using '' @ app_name app @ '' default'')
              ''low'' [''warning'']]"
    using failure_answer(2) [OF assms(1-5) asked out] .
qed

text \<open>A request that times out, and the choices 0 and 3 for two releases.\<close>

lemma timeout_deferred:
  "fst (webhook_override ascii_python Radarr example_cfg example_api (failing ''Read timed out.'')
          (Some (example_payload [release_a, release_b]))) =
     (\<lparr>approved = True, selectedReleaseGuid = None,
       reason = PyStr ''AI failed: Read timed out., using default''\<rparr>, 200)"
  "filter is_notification
     (snd (webhook_override ascii_python Radarr example_cfg example_api (failing ''Read timed out.'')
             (Some (example_payload [release_a, release_b])))) =
     [Notification ''AI Warning: Film''
        (''Selection failed: Read timed out.'' @ nl @ ''Using Radarr default'')
        ''low'' [''warning'']]"
  by (simp_all add: example_asks example_failing decide_failed ask_ai_no_notification)

lemma out_of_range_deferred:
  "c = 0 \<or> c = 3 \<Longrightarrow>
   fst (webhook_override ascii_python Radarr example_cfg example_api
          (answering (Loaded_dict [''choice'' \<mapsto> PyInt c, ''reason'' \<mapsto> PyStr ''best'']))
          (Some (example_payload [release_a, release_b]))) =
     (\<lparr>approved = True, selectedReleaseGuid = None,
       reason = PyStr ''AI failed: best, using default''\<rparr>, 200)"
  by (auto simp add: example_asks example_choice decide_failed)

text \<open>
  Claim C3.  A failure of the model client (a request that raises, an answer that is no JSON,
  a choice that is no integer) is to be answered "AI failed: <detail>, using default" with the
  failure notification.  Two failures are answered otherwise.  The handler takes a returned
  failure for a missing prompt when its detail contains the text "AI bypassed" (the branch
  commented "No prompts for this profile"), and the detail of a request that raises is the
  message of the exception; the client accepts a choice by \<open>isinstance(choice, int)\<close>, which
  holds of \<open>True\<close>.  With a prompt configured, two releases and no skip tag: the request to
  the model raises an HTTP error whose reason phrase contains "AI bypassed", and the answer
  carries the message as its reason, no "AI failed", and no notification is sent; the model
  answers \<open>{"choice": true, "reason": "yes"}\<close>, and the handler overrides the default with
  the first release.
\<close>

theorem model_failure_not_deferred:
  "get_system_prompt_for_profile ascii_python example_cfg (app_service Radarr)
       (request_profile example_api (example_payload [release_a, release_b]))
     = Some ''Prefer small files.''
   \<and> \<not> skip_tagged ascii_python example_cfg example_api (example_payload [release_a, release_b])
   \<and> chat_completions
         (failing ''503 Server Error: AI bypassed for url: http://llm/v1/chat/completions'')
         ''Prefer small files.''
         (USER_PROMPT_TEMPLATE ''Film'' ''HD-1080p''
            (format_releases_for_ai [release_a, release_b] ''Film''))
       = Inl (OtherException
                ''503 Server Error: AI bypassed for url: http://llm/v1/chat/completions'')
   \<and> fst (webhook_radarr_override ascii_python example_cfg example_api
         (failing ''503 Server Error: AI bypassed for url: http://llm/v1/chat/completions'')
         (Some (example_payload [release_a, release_b])))
       = (\<lparr>approved = True, selectedReleaseGuid = None,
            reason = PyStr ''503 Server Error: AI bypassed for url: http://llm/v1/chat/completions''\<rparr>,
          200)
   \<and> filter is_notification
         (snd (webhook_radarr_override ascii_python example_cfg example_api
           (failing ''503 Server Error: AI bypassed for url: http://llm/v1/chat/completions'')
           (Some (example_payload [release_a, release_b])))) = []
   \<and> json_loads (answering (Loaded_dict [''choice'' \<mapsto> PyBool True, ''reason'' \<mapsto> PyStr ''yes'']))
         (strip_fence (strip ascii_python ''{}''))
       = Inr (Loaded_dict [''choice'' \<mapsto> PyBool True, ''reason'' \<mapsto> PyStr ''yes''])
   \<and> fst (webhook_radarr_override ascii_python example_cfg example_api
          (answering (Loaded_dict [''choice'' \<mapsto> PyBool True, ''reason'' \<mapsto> PyStr ''yes'']))
          (Some (example_payload [release_b, release_a])))
       = (\<lparr>approved = True, selectedReleaseGuid = Some (Some ''b''), reason = PyStr ''yes''\<rparr>, 200)"
proof -
  have "contains ''AI bypassed''
          ''503 Server Error: AI bypassed for url: http://llm/v1/chat/completions''"
    by simp
  then have "fst (webhook_radarr_override ascii_python example_cfg example_api
         (failing ''503 Server Error: AI bypassed for url: http://llm/v1/chat/completions'')
         (Some (example_payload [release_a, release_b])))
       = (\<lparr>approved = True, selectedReleaseGuid = None,
            reason = PyStr ''503 Server Error: AI bypassed for url: http://llm/v1/chat/completions''\<rparr>,
          200)"
    and "filter is_notification
         (snd (webhook_radarr_override ascii_python example_cfg example_api
           (failing ''503 Server Error: AI bypassed for url: http://llm/v1/chat/completions'')
           (Some (example_payload [release_a, release_b])))) = []"
    by (simp_all add: webhook_radarr_override_def example_asks example_failing decide_bypass
        ask_ai_no_notification)
  moreover have "chat_completions
         (failing ''503 Server Error: AI bypassed for url: http://llm/v1/chat/completions'')
         ''Prefer small files.''
         (USER_PROMPT_TEMPLATE ''Film'' ''HD-1080p''
            (format_releases_for_ai [release_a, release_b] ''Film''))
       = Inl (OtherException
                ''503 Server Error: AI bypassed for url: http://llm/v1/chat/completions'')"
    and "json_loads (answering (Loaded_dict [''choice'' \<mapsto> PyBool True, ''reason'' \<mapsto> PyStr ''yes'']))
         (strip_fence (strip ascii_python ''{}''))
       = Inr (Loaded_dict [''choice'' \<mapsto> PyBool True, ''reason'' \<mapsto> PyStr ''yes''])"
    by (simp_all add: failing_def answering_def)
  ultimately show ?thesis
    using boolean_choice_is_index_one example_not_skipped [of "[release_a, release_b]"]
    by (simp add: example_profile example_prompt)
qed

section \<open>Confirming the default\<close>

text \<open>
  Claim C4.  When the model client returns an in-range choice \<open>c\<close> with reason \<open>r\<close>, and the
  chosen release has the guid of the first release flagged \<open>isSelected\<close> in the order of arrival
  (index \<open>i\<close>, no flagged release before it), the answer is \<open>approved = True\<close> without
  \<open>selectedReleaseGuid\<close> and with the reason "AI confirms default: r", and no notification is
  sent.
\<close>

theorem confirms_default:
  assumes "app_config app cfg \<noteq> None"
    and "eventType p = Some ''DownloadDecisionOverride''"
    and "releases p = Some rels"
    and "rels \<noteq> []"
    and "\<not> skip_tagged py cfg api p"
    and "fst (ask_ai_for_selection py cfg llm rels (request_title p) (request_profile api p)
                (app_service app)) = (Some c, r)"
    and "1 \<le> c" and "c \<le> int (length rels)"
    and "i < length rels"
    and "isSelected (rels ! i) = Some True"
    and "\<forall>j<i. isSelected (rels ! j) \<noteq> Some True"
    and "guid (chosen rels c) = guid (rels ! i)"
  shows "fst (webhook_override py app cfg api llm (Some p)) =
           (\<lparr>approved = True, selectedReleaseGuid = None,
             reason = PyStr (''AI confirms default: '' @ py_str r)\<rparr>, 200)
       \<and> filter is_notification (snd (webhook_override py app cfg api llm (Some p))) = []"
proof -
  have "find (\<lambda>x. isSelected x = Some True) rels = Some (rels ! i)"
    using assms(9-11) by (intro find_first) simp_all
  then have "decide app cfg rels (request_title p) (request_profile api p) (Some c) r =
           ((\<lparr>approved = True, selectedReleaseGuid = None,
              reason = PyStr (''AI confirms default: '' @ py_str r)\<rparr>, 200), [])"
    using assms(7,8,12) by (intro decide_confirms) simp_all
  then show ?thesis
    using assms(1-6) by (simp add: webhook_override_asks ask_ai_no_notification)
qed

theorem confirms_default_witness:
  "app_config Radarr example_cfg \<noteq> None
   \<and> eventType (example_payload [release_b, release_a, release_c]) = Some ''DownloadDecisionOverride''
   \<and> releases (example_payload [release_b, release_a, release_c])
       = Some [release_b, release_a, release_c]
   \<and> \<not> skip_tagged ascii_python example_cfg example_api (example_payload [release_b, release_a, release_c])
   \<and> fst (ask_ai_for_selection ascii_python example_cfg
             (answering (Loaded_dict [''choice'' \<mapsto> PyInt 2, ''reason'' \<mapsto> PyStr ''smallest'']))
             [release_b, release_a, release_c]
             (request_title (example_payload [release_b, release_a, release_c]))
             (request_profile example_api (example_payload [release_b, release_a, release_c]))
             (app_service Radarr)) = (Some 2, PyStr ''smallest'')
   \<and> isSelected ([release_b, release_a, release_c] ! 1) = Some True
   \<and> isSelected ([release_b, release_a, release_c] ! 0) \<noteq> Some True
   \<and> guid (chosen [release_b, release_a, release_c] 2) = guid ([release_b, release_a, release_c] ! 1)
   \<and> fst (webhook_override ascii_python Radarr example_cfg example_api
             (answering (Loaded_dict [''choice'' \<mapsto> PyInt 2, ''reason'' \<mapsto> PyStr ''smallest'']))
             (Some (example_payload [release_b, release_a, release_c]))) =
         (\<lparr>approved = True, selectedReleaseGuid = None,
           reason = PyStr ''AI confirms default: smallest''\<rparr>, 200)
   \<and> filter is_notification
         (snd (webhook_override ascii_python Radarr example_cfg example_api
             (answering (Loaded_dict [''choice'' \<mapsto> PyInt 2, ''reason'' \<mapsto> PyStr ''smallest'']))
             (Some (example_payload [release_b, release_a, release_c])))) = []"
proof -
  let ?rels = "[release_b, release_a, release_c]"
  let ?llm = "answering (Loaded_dict [''choice'' \<mapsto> PyInt 2, ''reason'' \<mapsto> PyStr ''smallest''])"
  have asked: "fst (ask_ai_for_selection ascii_python example_cfg ?llm ?rels
                 (request_title (example_payload ?rels))
                 (request_profile example_api (example_payload ?rels))
                 (app_service Radarr)) = (Some 2, PyStr ''smallest'')"
    by (simp add: example_title example_profile example_choice)
  have flagged: "isSelected (?rels ! 1) = Some True"
    and first: "\<forall>j<1. isSelected (?rels ! j) \<noteq> Some True"
    and same: "guid (chosen ?rels 2) = guid (?rels ! 1)"
    by (simp_all add: example_flags chosen_def)
  show ?thesis
    using confirms_default [OF example_configured example_event(1) example_event(2) _
        example_not_skipped asked _ _ _ flagged first same]
      example_configured [of Radarr] example_not_skipped [of ?rels] asked flagged first same
    by (simp add: example_event)
qed

section \<open>Dry run\<close>

text \<open>
  Claim C5.  With \<open>dry_run\<close> set, when the model client returns an in-range choice \<open>c\<close> whose
  release does not have the guid of the first flagged release (or no release is flagged), the
  answer is \<open>approved = True\<close> without \<open>selectedReleaseGuid\<close>, its reason is
  "[DRY RUN] Would select: " followed by the chosen release's title, and no notification is
  sent.  The same request with \<open>dry_run\<close> unset is answered with the override of the same
  release: the decision is the same up to that point.
\<close>

theorem dry_run_suppresses:
  assumes "app_config app cfg \<noteq> None"
    and "eventType p = Some ''DownloadDecisionOverride''"
    and "releases p = Some rels"
    and "rels \<noteq> []"
    and "\<not> skip_tagged py cfg api p"
    and "fst (ask_ai_for_selection py cfg llm rels (request_title p) (request_profile api p)
                (app_service app)) = (Some c, r)"
    and "1 \<le> c" and "c \<le> int (length rels)"
    and "map_option guid (find (\<lambda>x. isSelected x = Some True) rels) \<noteq> Some (guid (chosen rels c))"
    and "dry_run cfg"
  shows "fst (webhook_override py app cfg api llm (Some p)) =
           (\<lparr>approved = True, selectedReleaseGuid = None,
             reason = PyStr (''[DRY RUN] Would select: '' @
                             get_or (title (chosen rels c)) ''Unknown'')\<rparr>, 200)
       \<and> filter is_notification (snd (webhook_override py app cfg api llm (Some p))) = []
       \<and> fst (webhook_override py app (cfg\<lparr>dry_run := False\<rparr>) api llm (Some p)) =
           (\<lparr>approved = True, selectedReleaseGuid = Some (guid (chosen rels c)), reason = r\<rparr>, 200)"
proof -
  let ?cfg' = "cfg\<lparr>dry_run := False\<rparr>"
  have same: "ask_ai_for_selection py ?cfg' llm rels (request_title p) (request_profile api p)
                (app_service app) =
              ask_ai_for_selection py cfg llm rels (request_title p) (request_profile api p)
                (app_service app)"
    by (simp add: ask_ai_for_selection_def get_system_prompt_for_profile_def)
  have configured': "app_config app ?cfg' \<noteq> None"
    using assms(1) by (cases app) simp_all
  have unskipped': "\<not> skip_tagged py ?cfg' api p"
    using assms(5) by (simp add: skip_tagged_def split: option.splits)
  have dry: "fst (webhook_override py app cfg api llm (Some p)) =
           (\<lparr>approved = True, selectedReleaseGuid = None,
             reason = PyStr (''[DRY RUN] Would select: '' @
                             get_or (title (chosen rels c)) ''Unknown'')\<rparr>, 200)"
    and quiet: "filter is_notification (snd (webhook_override py app cfg api llm (Some p))) = []"
    using assms
    by (simp_all add: webhook_override_asks decide_overrides ask_ai_no_notification)
  have "fst (webhook_override py app ?cfg' api llm (Some p)) =
           (\<lparr>approved = True, selectedReleaseGuid = Some (guid (chosen rels c)), reason = r\<rparr>, 200)"
    using configured' unskipped' assms(2-4,6-9)
    by (simp add: webhook_override_asks same decide_overrides)
  with dry quiet show ?thesis
    by simp
qed

theorem dry_run_suppresses_witness:
  "app_config Radarr (example_cfg\<lparr>dry_run := True\<rparr>) \<noteq> None
   \<and> eventType (example_payload [release_a, release_b]) = Some ''DownloadDecisionOverride''
   \<and> releases (example_payload [release_a, release_b]) = Some [release_a, release_b]
   \<and> \<not> skip_tagged ascii_python (example_cfg\<lparr>dry_run := True\<rparr>) example_api
         (example_payload [release_a, release_b])
   \<and> fst (ask_ai_for_selection ascii_python (example_cfg\<lparr>dry_run := True\<rparr>)
             (answering (Loaded_dict [''choice'' \<mapsto> PyInt 2, ''reason'' \<mapsto> PyStr ''better seeders'']))
             [release_a, release_b]
             (request_title (example_payload [release_a, release_b]))
             (request_profile example_api (example_payload [release_a, release_b]))
             (app_service Radarr)) = (Some 2, PyStr ''better seeders'')
   \<and> map_option guid (find (\<lambda>x. isSelected x = Some True) [release_a, release_b])
       \<noteq> Some (guid (chosen [release_a, release_b] 2))
   \<and> dry_run (example_cfg\<lparr>dry_run := True\<rparr>)
   \<and> fst (webhook_override ascii_python Radarr (example_cfg\<lparr>dry_run := True\<rparr>) example_api
             (answering (Loaded_dict [''choice'' \<mapsto> PyInt 2, ''reason'' \<mapsto> PyStr ''better seeders'']))
             (Some (example_payload [release_a, release_b]))) =
         (\<lparr>approved = True, selectedReleaseGuid = None,
           reason = PyStr ''[DRY RUN] Would select: Film.2019.2160p.WEB''\<rparr>, 200)
   \<and> filter is_notification
         (snd (webhook_override ascii_python Radarr (example_cfg\<lparr>dry_run := True\<rparr>) example_api
             (answering (Loaded_dict [''choice'' \<mapsto> PyInt 2, ''reason'' \<mapsto> PyStr ''better seeders'']))
             (Some (example_payload [release_a, release_b])))) = []
   \<and> fst (webhook_override ascii_python Radarr (example_cfg\<lparr>dry_run := False\<rparr>) example_api
             (answering (Loaded_dict [''choice'' \<mapsto> PyInt 2, ''reason'' \<mapsto> PyStr ''better seeders'']))
             (Some (example_payload [release_a, release_b]))) =
         (\<lparr>approved = True, selectedReleaseGuid = Some (Some ''b''),
           reason = PyStr ''better seeders''\<rparr>, 200)"
proof -
  let ?rels = "[release_a, release_b]"
  let ?cfg = "example_cfg\<lparr>dry_run := True\<rparr>"
  let ?llm = "answering (Loaded_dict [''choice'' \<mapsto> PyInt 2, ''reason'' \<mapsto> PyStr ''better seeders''])"
  have configured: "app_config Radarr ?cfg \<noteq> None"
    by (simp add: example_cfg_def)
  have unskipped: "\<not> skip_tagged ascii_python ?cfg example_api (example_payload ?rels)"
    using example_not_skipped [of ?rels] by (simp add: skip_tagged_def split: option.splits)
  have "ask_ai_for_selection ascii_python ?cfg ?llm ?rels ''Film'' ''HD-1080p'' ''radarr'' =
        ask_ai_for_selection ascii_python example_cfg ?llm ?rels ''Film'' ''HD-1080p'' ''radarr''"
    by (simp add: ask_ai_for_selection_def get_system_prompt_for_profile_def)
  then have asked: "fst (ask_ai_for_selection ascii_python ?cfg ?llm ?rels
                 (request_title (example_payload ?rels))
                 (request_profile example_api (example_payload ?rels))
                 (app_service Radarr)) = (Some 2, PyStr ''better seeders'')"
    by (simp add: example_title example_profile example_choice)
  have other: "map_option guid (find (\<lambda>x. isSelected x = Some True) ?rels)
       \<noteq> Some (guid (chosen ?rels 2))"
    by (simp add: example_flags chosen_def)
  have dry: "dry_run ?cfg"
    by simp
  show ?thesis
    using dry_run_suppresses [OF configured example_event(1) example_event(2) _ unskipped asked
        _ _ other dry]
      configured unskipped asked other
    by (simp add: example_event chosen_def example_flags get_or_def)
qed

section \<open>No prompt for the profile\<close>

text \<open>
  Claim C6.  When no prompt is configured for the request's service and profile name, the
  handler has no effect at all, so no model request is issued; and a request that reaches the
  prompt lookup (configured service, the override event, a non-empty release list, no skip tag)
  is answered \<open>approved = True\<close> with the reason exactly
  "AI bypassed - no prompt for this profile".
\<close>

theorem no_prompt_bypass:
  assumes "get_system_prompt_for_profile py cfg (app_service app) (request_profile api p) = None"
  shows "snd (webhook_override py app cfg api llm (Some p)) = []
       \<and> (app_config app cfg \<noteq> None
           \<and> eventType p = Some ''DownloadDecisionOverride''
           \<and> releases p = Some rels \<and> rels \<noteq> []
           \<and> \<not> skip_tagged py cfg api p \<longrightarrow>
          fst (webhook_override py app cfg api llm (Some p)) =
            (\<lparr>approved = True, selectedReleaseGuid = None,
              reason = PyStr ''AI bypassed - no prompt for this profile''\<rparr>, 200))"
  using assms
  by (auto simp add: webhook_effects_no_prompt webhook_override_asks ask_ai_no_prompt decide_bypass)

theorem no_prompt_bypass_witness:
  "get_system_prompt_for_profile ascii_python example_cfg (app_service Sonarr)
     (request_profile example_api (example_payload [release_a])) = None
   \<and> app_config Sonarr example_cfg \<noteq> None
   \<and> eventType (example_payload [release_a]) = Some ''DownloadDecisionOverride''
   \<and> releases (example_payload [release_a]) = Some [release_a]
   \<and> [release_a] \<noteq> []
   \<and> \<not> skip_tagged ascii_python example_cfg example_api (example_payload [release_a])
   \<and> webhook_override ascii_python Sonarr example_cfg example_api (failing ''unreachable'')
         (Some (example_payload [release_a])) =
       ((\<lparr>approved = True, selectedReleaseGuid = None,
          reason = PyStr ''AI bypassed - no prompt for this profile''\<rparr>, 200), [])"
proof -
  have none: "get_system_prompt_for_profile ascii_python example_cfg (app_service Sonarr)
     (request_profile example_api (example_payload [release_a])) = None"
    by (simp add: example_no_sonarr_prompt)
  show ?thesis
    using no_prompt_bypass [OF none, of "failing ''unreachable''" "[release_a]"]
      none example_configured [of Sonarr] example_not_skipped [of "[release_a]"]
    by (simp add: example_event prod_eq_iff)
qed

section \<open>No releases\<close>

text \<open>
  Claim C7.  A request of the override event whose release list is missing or empty is answered
  \<open>approved = True\<close> with the reason "No releases to evaluate" and without any effect,
  whatever the prompt table, the API and the model are: the handler returns before the prompt
  lookup and before any model request.
\<close>

theorem no_releases_short_circuit:
  assumes "app_config app cfg \<noteq> None"
    and "eventType p = Some ''DownloadDecisionOverride''"
    and "releases p = None \<or> releases p = Some []"
  shows "webhook_override py app cfg api llm (Some p) =
           ((\<lparr>approved = True, selectedReleaseGuid = None,
              reason = PyStr ''No releases to evaluate''\<rparr>, 200), [])"
  using assms
  by (cases "app_config app cfg") (auto simp add: webhook_override_def Let_def get_or_def)

theorem no_releases_short_circuit_witness:
  "app_config Sonarr example_cfg \<noteq> None
   \<and> eventType (example_payload []) = Some ''DownloadDecisionOverride''
   \<and> (releases (example_payload []) = None \<or> releases (example_payload []) = Some [])
   \<and> webhook_override ascii_python Sonarr example_cfg example_api (failing ''unreachable'')
         (Some (example_payload [])) =
       ((\<lparr>approved = True, selectedReleaseGuid = None,
          reason = PyStr ''No releases to evaluate''\<rparr>, 200), [])"
  using no_releases_short_circuit [OF example_configured example_event(1),
      where rels1 = "[]" and app = Sonarr and py = ascii_python and api = example_api
        and llm = "failing ''unreachable''"]
    example_configured [of Sonarr]
  by (simp add: example_event)

section \<open>The age bucket\<close>

text \<open>
  Claim C8.  For a non-negative \<open>ageMinutes\<close> below \<open>2^53\<close> that Python holds exactly (an
  \<open>int\<close>, or a \<open>float\<close>, which is a double), the formatter writes the age as the whole
  minutes followed by \<open>m\<close> below 60, as the whole hours (\<open>ageMinutes / 60\<close> truncated,
  never rounded) followed by \<open>h\<close> below 1440, and as the whole days
  (\<open>ageMinutes / 1440\<close> truncated) followed by \<open>d\<close> from 1440 on; 59 gives \<open>59m\<close>,
  60 gives \<open>1h\<close>, 1439 gives \<open>23h\<close> and 1440 gives \<open>1d\<close>.
\<close>

theorem age_buckets:
  assumes "0 \<le> a" and "a < 2 ^ 53" and "round_double a = a"
  shows "age_str a =
           (if a < 60 then str_nat (nat \<lfloor>a\<rfloor>) @ ''m''
            else if a < 1440 then str_nat (nat \<lfloor>a / 60\<rfloor>) @ ''h''
            else str_nat (nat \<lfloor>a / 1440\<rfloor>) @ ''d'')
       \<and> age_str 59 = ''59m'' \<and> age_str 60 = ''1h''
       \<and> age_str 1439 = ''23h'' \<and> age_str 1440 = ''1d''"
  using age_str_exact [OF assms] age_examples by simp

theorem age_buckets_witness:
  "(0::rat) \<le> 179 / 2 \<and> (179::rat) / 2 < 2 ^ 53 \<and> round_double (179 / 2) = 179 / 2
   \<and> age_str (179 / 2) = ''1h''"
proof -
  have h: "(0::rat) \<le> 179 / 2" "(179::rat) / 2 < 2 ^ 53"
    by simp_all
  have d: "round_double (179 / 2) = 179 / 2"
    by (rule half_minute_is_double)
  have "\<lfloor>(179::rat) / 2 / 60\<rfloor> = 1"
    by (rule floor_unique) simp_all
  then have "age_str (179 / 2) = ''1h''"
    using age_buckets [OF h d] by (simp add: str_nat.simps [of "Suc 0"] digit_def)
  then show ?thesis
    using h d by simp
qed

text \<open>Without the bound the days are rounded: 143999999999999999999 minutes are
  99999999999999999 whole days, and the formatter writes 100000000000000000.  The quotient is
  a double before \<open>int\<close> truncates it, and the doubles of that size are 16 apart.\<close>

theorem age_rounded_up:
  "(0::rat) \<le> 143999999999999999999
   \<and> str_nat (nat \<lfloor>(143999999999999999999::rat) / 1440\<rfloor>) @ ''d'' = ''99999999999999999d''
   \<and> age_str 143999999999999999999 = ''100000000000000000d''"
proof (intro conjI)
  show "(0::rat) \<le> 143999999999999999999"
    by simp
  show "str_nat (nat \<lfloor>(143999999999999999999::rat) / 1440\<rfloor>) @ ''d'' = ''99999999999999999d''"
    by (simp add: exact_days str_nat_numeral str_nat.simps [of "Suc 0"] digit_def)
  show "age_str 143999999999999999999 = ''100000000000000000d''"
    by (rule age_str_rounds_up)
qed

section \<open>Prompt resolution\<close>

text \<open>
  Claim C9.  For a prompt table loaded from the prompts directory, the lookup of a service and
  a profile name finds a prompt exactly when the service name, lower-cased and stripped of
  surrounding whitespace, is \<open>radarr\<close> or \<open>sonarr\<close>, and that service's directory holds a
  profile directory with a non-blank \<open>system.txt\<close> whose lower-cased name equals the profile
  name lower-cased and stripped.  Nothing else is tried: no prefix, no default profile.  Names
  that differ in letter case only (the same under \<open>str.lower\<close>) resolve alike.  Lower case
  and stripping are those of the interpreter \<open>py\<close>, whatever its character tables are.
\<close>

theorem prompt_resolution:
  assumes "service_prompts cfg = load_service_prompts py dir"
  shows "(get_system_prompt_for_profile py cfg service profile_name \<noteq> None \<longleftrightarrow>
            (\<exists>listdir entries name body.
               dir = Some listdir
               \<and> (strip py (lower py service) = ''radarr'' \<or> strip py (lower py service) = ''sonarr'')
               \<and> listdir (strip py (lower py service)) = Some entries
               \<and> (name, Directory (Some body)) \<in> set entries
               \<and> strip py body \<noteq> []
               \<and> lower py name = strip py (lower py profile_name)))
       \<and> (lower py service' = lower py service \<and> lower py profile_name' = lower py profile_name \<longrightarrow>
            get_system_prompt_for_profile py cfg service' profile_name' =
            get_system_prompt_for_profile py cfg service profile_name)"
proof (intro conjI impI)
  show "get_system_prompt_for_profile py cfg service profile_name \<noteq> None \<longleftrightarrow>
            (\<exists>listdir entries name body.
               dir = Some listdir
               \<and> (strip py (lower py service) = ''radarr'' \<or> strip py (lower py service) = ''sonarr'')
               \<and> listdir (strip py (lower py service)) = Some entries
               \<and> (name, Directory (Some body)) \<in> set entries
               \<and> strip py body \<noteq> []
               \<and> lower py name = strip py (lower py profile_name))"
  proof (cases "strip py (lower py service) = ''radarr'' \<or> strip py (lower py service) = ''sonarr''")
    case False
    then show ?thesis
      using assms
      by (simp add: get_system_prompt_for_profile_def load_service_prompts_lookup get_or_def Let_def)
  next
    case known: True
    show ?thesis
    proof (cases dir)
      case None
      then show ?thesis
        using assms known
        by (auto simp add: get_system_prompt_for_profile_def load_service_prompts_lookup
            get_or_def Let_def)
    next
      case (Some listdir)
      show ?thesis
      proof (cases "listdir (strip py (lower py service))")
        case None
        then show ?thesis
          using assms known Some
          by (auto simp add: get_system_prompt_for_profile_def load_service_prompts_lookup
              get_or_def Let_def)
      next
        case entries: (Some es)
        have eq: "get_system_prompt_for_profile py cfg service profile_name =
                load_profiles py es Map.empty (strip py (lower py profile_name))"
          using assms known Some entries
          by (auto simp add: get_system_prompt_for_profile_def load_service_prompts_lookup
              get_or_def Let_def)
        have dom: "load_profiles py es Map.empty (strip py (lower py profile_name)) \<noteq> None \<longleftrightarrow>
                (\<exists>name body. (name, Directory (Some body)) \<in> set es \<and> strip py body \<noteq> []
                   \<and> lower py name = strip py (lower py profile_name))"
          using load_profiles_dom [of "strip py (lower py profile_name)" py es Map.empty]
          by (simp add: dom_def)
        have ex: "(\<exists>listdir entries name body.
               dir = Some listdir
               \<and> (strip py (lower py service) = ''radarr'' \<or> strip py (lower py service) = ''sonarr'')
               \<and> listdir (strip py (lower py service)) = Some entries
               \<and> (name, Directory (Some body)) \<in> set entries
               \<and> strip py body \<noteq> []
               \<and> lower py name = strip py (lower py profile_name)) \<longleftrightarrow>
               (\<exists>name body. (name, Directory (Some body)) \<in> set es \<and> strip py body \<noteq> []
                   \<and> lower py name = strip py (lower py profile_name))"
          using known Some entries by auto
        show ?thesis
          unfolding eq dom ex ..
      qed
    qed
  qed
next
  assume "lower py service' = lower py service \<and> lower py profile_name' = lower py profile_name"
  then show "get_system_prompt_for_profile py cfg service' profile_name' =
            get_system_prompt_for_profile py cfg service profile_name"
    by (simp add: get_system_prompt_for_profile_def)
qed

theorem prompt_resolution_witness:
  "service_prompts example_cfg = load_service_prompts ascii_python example_dir
   \<and> get_system_prompt_for_profile ascii_python example_cfg ''Radarr'' '' hd-1080P '' \<noteq> None"
proof -
  have loaded: "service_prompts example_cfg = load_service_prompts ascii_python example_dir"
    by (simp add: example_cfg_def)
  have "\<exists>listdir entries name body.
               example_dir = Some listdir
               \<and> (strip ascii_python (lower ascii_python ''Radarr'') = ''radarr'' \<or> strip ascii_python (lower ascii_python ''Radarr'') = ''sonarr'')
               \<and> listdir (strip ascii_python (lower ascii_python ''Radarr'')) = Some entries
               \<and> (name, Directory (Some body)) \<in> set entries
               \<and> strip ascii_python body \<noteq> []
               \<and> lower ascii_python name = strip ascii_python (lower ascii_python '' hd-1080P '')"
    unfolding example_dir_def strip_lower_examples
    by (intro exI [of _ "\<lambda>service.
       if service = ''radarr''
       then Some [(''HD-1080p'', Directory (Some ''Prefer small files. '')),
                  (''notes.txt'', Plain_file),
                  (''Empty'', Directory None)]
       else None"] exI [of _ "[(''HD-1080p'', Directory (Some ''Prefer small files. '')),
                  (''notes.txt'', Plain_file),
                  (''Empty'', Directory None)]"] exI [of _ "''HD-1080p''"]
        exI [of _ "''Prefer small files. ''"])
       (simp add: strip_lower_examples)
  then show ?thesis
    using prompt_resolution [OF loaded, of "''Radarr''" "'' hd-1080P ''"] loaded
    by blast
qed

text \<open>The table of the example holds one Radarr profile, \<open>hd-1080p\<close>; a name with a
  trailing blank is no entry of it in any letter case, and resolves.\<close>

theorem trimmed_name_resolves:
  "service_prompts example_cfg =
     [''radarr'' \<mapsto> [''hd-1080p'' \<mapsto> ''Prefer small files.''], ''sonarr'' \<mapsto> Map.empty]
   \<and> lower ascii_python ''hd-1080p '' \<noteq> lower ascii_python ''hd-1080p''
   \<and> get_system_prompt_for_profile ascii_python example_cfg ''radarr'' ''hd-1080p ''
       = Some ''Prefer small files.''"
  by (simp add: example_table get_system_prompt_for_profile_def get_or_def Let_def
      ascii_python_def ascii_strip_def ascii_isspace_def ascii_lower_def ascii_lower_char_def)

section \<open>A missing reason\<close>

text \<open>
  Claim C10.  When the model's answer parses to a JSON object whose \<open>choice\<close> is an integer
  \<open>n\<close> and which has no key \<open>reason\<close>, the model client returns the choice \<open>n\<close> with the
  reason "No reason provided": the missing key is no validation failure.
\<close>

theorem missing_reason_accepted:
  assumes "get_system_prompt_for_profile py cfg service profile_name = Some system_prompt"
    and "chat_completions llm system_prompt
           (USER_PROMPT_TEMPLATE t profile_name
              (format_releases_for_ai rels t)) = Inr body"
    and "json_loads llm (strip_fence (strip py body)) = Inr (Loaded_dict parsed)"
    and "parsed ''choice'' = Some (PyInt n)"
    and "parsed ''reason'' = None"
  shows "fst (ask_ai_for_selection py cfg llm rels t profile_name service) =
           (Some n, PyStr ''No reason provided'')"
  using assms by (simp add: ask_ai_prompt read_answer_def get_or_def)

theorem missing_reason_accepted_witness:
  "get_system_prompt_for_profile ascii_python example_cfg ''radarr'' ''HD-1080p'' = Some ''Prefer small files.''
   \<and> chat_completions (answering (Loaded_dict [''choice'' \<mapsto> PyInt 2])) ''Prefer small files.''
        (USER_PROMPT_TEMPLATE ''Film'' ''HD-1080p''
           (format_releases_for_ai [release_a, release_b] ''Film'')) = Inr ''{}''
   \<and> json_loads (answering (Loaded_dict [''choice'' \<mapsto> PyInt 2])) (strip_fence (strip ascii_python ''{}''))
       = Inr (Loaded_dict [''choice'' \<mapsto> PyInt 2])
   \<and> [''choice'' \<mapsto> PyInt 2] ''choice'' = Some (PyInt 2)
   \<and> [''choice'' \<mapsto> PyInt 2] ''reason'' = None
   \<and> fst (ask_ai_for_selection ascii_python example_cfg (answering (Loaded_dict [''choice'' \<mapsto> PyInt 2]))
             [release_a, release_b] ''Film'' ''HD-1080p'' ''radarr'') =
         (Some 2, PyStr ''No reason provided'')"
proof -
  let ?llm = "answering (Loaded_dict [''choice'' \<mapsto> PyInt 2])"
  have c: "chat_completions ?llm ''Prefer small files.''
        (USER_PROMPT_TEMPLATE ''Film'' ''HD-1080p''
           (format_releases_for_ai [release_a, release_b] ''Film'')) = Inr ''{}''"
    and j: "json_loads ?llm (strip_fence (strip ascii_python ''{}'')) = Inr (Loaded_dict [''choice'' \<mapsto> PyInt 2])"
    by (simp_all add: answering_def)
  have k: "[''choice'' \<mapsto> PyInt 2] ''choice'' = Some (PyInt 2)"
    and r: "[''choice'' \<mapsto> PyInt 2] ''reason'' = None"
    by simp_all
  show ?thesis
    using missing_reason_accepted [OF example_prompt c j k r] example_prompt c j
    by simp
qed

end
